theory Spec2Isabelle
  imports Main "HOL-Library.Word"
begin

unbundle bit_operations_syntax

section \<open>Values of the JavaScript runtime\<close>

text \<open>
  A JavaScript string whose code units the program reads (a secret, a ciphertext, a
  variable of the environment) is the list of its UTF-16 code units; \<open>js\<close> writes one from
  ASCII text.  The names of providers, models and digests and the messages, which the
  program compares, joins and passes on, are ASCII text of type \<^typ>\<open>string\<close>.  A thrown
  \<^verbatim>\<open>Error\<close> is the value \<open>Error msg\<close>; a function that may throw returns
  \<open>js_error + 'a\<close>.  \<^verbatim>\<open>null\<close> and \<^verbatim>\<open>undefined\<close> are \<open>None\<close>.
\<close>

type_synonym byte = "8 word"
type_synonym code_unit = "16 word"
type_synonym jsstring = "code_unit list"

datatype js_error = Error string

definition js :: "string \<Rightarrow> jsstring" where
  "js s = map (\<lambda>c. word_of_nat (of_char c)) s"

definition truthy :: "'a list option \<Rightarrow> bool" where
  "truthy v = (case v of None \<Rightarrow> False | Some s \<Rightarrow> s \<noteq> [])"

subsection \<open>The encoding \<^verbatim>\<open>'utf8'\<close>\<close>

text \<open>
  Writing a string as UTF-8, as \<^verbatim>\<open>cipher.update(text, 'utf8', ...)\<close> does: a code unit
  outside the surrogates gives one to three bytes, a high surrogate followed by a low one
  gives the four bytes of their code point, and a surrogate without its partner gives the
  three bytes of U+FFFD.  The argument \<open>pending\<close> is a high surrogate read and not yet
  written.  The arithmetic is on integers.
\<close>

definition is_high :: "int \<Rightarrow> bool" where
  "is_high u = (55296 \<le> u \<and> u \<le> 56319)"

definition is_low :: "int \<Rightarrow> bool" where
  "is_low u = (56320 \<le> u \<and> u \<le> 57343)"

definition utf8_of_unit :: "int \<Rightarrow> int list" where
  "utf8_of_unit u =
     (if u < 128 then [u]
      else if u < 2048 then [192 + u div 64, 128 + u mod 64]
      else if is_high u \<or> is_low u then [239, 191, 189]
      else [224 + u div 4096, 128 + u div 64 mod 64, 128 + u mod 64])"

definition utf8_of_pair :: "int \<Rightarrow> int \<Rightarrow> int list" where
  "utf8_of_pair h l =
     (let cp = 65536 + (h - 55296) * 1024 + (l - 56320) in
      [240 + cp div 262144, 128 + cp div 4096 mod 64, 128 + cp div 64 mod 64, 128 + cp mod 64])"

primrec utf8_enc :: "int list \<Rightarrow> int option \<Rightarrow> int list" where
  "utf8_enc [] pending = (case pending of None \<Rightarrow> [] | Some h \<Rightarrow> [239, 191, 189])"
| "utf8_enc (u # us) pending =
     (case pending of
        None \<Rightarrow> if is_high u then utf8_enc us (Some u) else utf8_of_unit u @ utf8_enc us None
      | Some h \<Rightarrow>
          if is_low u then utf8_of_pair h u @ utf8_enc us None
          else if is_high u then [239, 191, 189] @ utf8_enc us (Some u)
          else [239, 191, 189] @ utf8_of_unit u @ utf8_enc us None)"

text \<open>
  Reading UTF-8 as a string, as \<^verbatim>\<open>decipher.update(..., 'utf8')\<close> with
  \<^verbatim>\<open>decipher.final('utf8')\<close> does: the decoder of the Encoding standard, whose state is
  the number of bytes still needed, the code point so far and the bounds of the next
  byte.  A byte that cannot go on a sequence gives U+FFFD and is read again as the start
  of a new one; an unfinished sequence at the end gives U+FFFD.
\<close>

type_synonym utf8_state = "nat \<times> int \<times> int \<times> int"

definition utf8_init :: utf8_state where
  "utf8_init = (0, 0, 128, 191)"

definition utf16_units :: "int \<Rightarrow> int list" where
  "utf16_units cp =
     (if cp < 65536 then [cp]
      else [55296 + (cp - 65536) div 1024, 56320 + (cp - 65536) mod 1024])"

definition utf8_lead :: "int \<Rightarrow> int list \<times> utf8_state" where
  "utf8_lead b =
     (if b < 128 then ([b], utf8_init)
      else if 194 \<le> b \<and> b \<le> 223 then ([], (1, b - 192, 128, 191))
      else if 224 \<le> b \<and> b \<le> 239 then
        ([], (2, b - 224, if b = 224 then 160 else 128, if b = 237 then 159 else 191))
      else if 240 \<le> b \<and> b \<le> 244 then
        ([], (3, b - 240, if b = 240 then 144 else 128, if b = 244 then 143 else 191))
      else ([65533], utf8_init))"

primrec utf8_dec :: "int list \<Rightarrow> utf8_state \<Rightarrow> int list" where
  "utf8_dec [] st = (case st of (needed, cp, lo, hi) \<Rightarrow> if needed = 0 then [] else [65533])"
| "utf8_dec (b # bs) st =
     (case st of (needed, cp, lo, hi) \<Rightarrow>
        if needed = 0 then fst (utf8_lead b) @ utf8_dec bs (snd (utf8_lead b))
        else if lo \<le> b \<and> b \<le> hi then
          (if needed = 1 then utf16_units (cp * 64 + (b - 128)) @ utf8_dec bs utf8_init
           else utf8_dec bs (needed - 1, cp * 64 + (b - 128), 128, 191))
        else 65533 # fst (utf8_lead b) @ utf8_dec bs (snd (utf8_lead b)))"

text \<open>A string is well formed when every surrogate in it is one of a pair.\<close>

primrec well_formed_units :: "int list \<Rightarrow> bool \<Rightarrow> bool" where
  "well_formed_units [] pending = (\<not> pending)"
| "well_formed_units (u # us) pending =
     (if pending then is_low u \<and> well_formed_units us False
      else if is_high u then well_formed_units us True
      else \<not> is_low u \<and> well_formed_units us False)"

definition utf8_bytes :: "jsstring \<Rightarrow> byte list" where
  "utf8_bytes s = map word_of_int (utf8_enc (map uint s) None)"

definition utf8_string :: "byte list \<Rightarrow> jsstring" where
  "utf8_string bs = map word_of_int (utf8_dec (map uint bs) utf8_init)"

definition well_formed :: "jsstring \<Rightarrow> bool" where
  "well_formed s = well_formed_units (map uint s) False"

subsection \<open>Hex encoding: \<^verbatim>\<open>buf.toString('hex')\<close> and \<^verbatim>\<open>Buffer.from(s, 'hex')\<close>\<close>

definition hex_digit :: "nat \<Rightarrow> code_unit" where
  "hex_digit n = js ''0123456789abcdef'' ! n"

definition byte_hex :: "byte \<Rightarrow> jsstring" where
  "byte_hex b = [hex_digit (unat b div 16), hex_digit (unat b mod 16)]"

definition toHex :: "byte list \<Rightarrow> jsstring" where
  "toHex bs = concat (map byte_hex bs)"

text \<open>
  The decoder looks a code unit up by its low byte and accepts both cases of the letters.
\<close>

definition unhex :: "code_unit \<Rightarrow> nat option" where
  "unhex c =
     (let n = uint c mod 256 in
      if 48 \<le> n \<and> n \<le> 57 then Some (nat (n - 48))
      else if 97 \<le> n \<and> n \<le> 102 then Some (nat (n - 87))
      else if 65 \<le> n \<and> n \<le> 70 then Some (nat (n - 55))
      else None)"

text \<open>
  Decoding reads two characters at a time and stops, keeping the bytes decoded so far, at
  the first pair that is not two hex digits; a trailing single character is dropped.
\<close>

fun fromHex :: "jsstring \<Rightarrow> byte list" where
  "fromHex (a # b # cs) =
     (case (unhex a, unhex b) of
        (Some h, Some l) \<Rightarrow> word_of_nat (16 * h + l) # fromHex cs
      | _ \<Rightarrow> [])"
| "fromHex _ = []"

subsection \<open>\<^verbatim>\<open>String.prototype.split\<close> with a one-character separator\<close>

abbreviation colon :: code_unit where
  "colon \<equiv> 58"

fun js_split :: "code_unit \<Rightarrow> jsstring \<Rightarrow> jsstring list" where
  "js_split d [] = [[]]"
| "js_split d (c # cs) =
     (if c = d then [] # js_split d cs
      else (case js_split d cs of
              p # ps \<Rightarrow> (c # p) # ps
            | [] \<Rightarrow> [[c]]))"

section \<open>The primitives of Node's \<^verbatim>\<open>crypto\<close> module\<close>

text \<open>
  The module is not part of the repository; its primitives are parameters.  PBKDF2 yields
  the first \<open>keylen\<close> bytes of an output stream fixed by password, salt, iteration count
  and digest.  AES-GCM combines the text with a key stream fixed by key and nonce, and
  authenticates the ciphertext with a 16-byte tag fixed by key, nonce and ciphertext.
  Nothing is assumed about the three streams.
\<close>

record crypto =
  pbkdf2_stream :: "jsstring \<Rightarrow> byte list \<Rightarrow> int \<Rightarrow> string \<Rightarrow> nat \<Rightarrow> byte"
  gcm_keystream :: "byte list \<Rightarrow> byte list \<Rightarrow> nat \<Rightarrow> byte"
  gcm_tag :: "byte list \<Rightarrow> byte list \<Rightarrow> byte list \<Rightarrow> nat \<Rightarrow> byte"

definition pbkdf2Sync ::
  "crypto \<Rightarrow> jsstring \<Rightarrow> byte list \<Rightarrow> int \<Rightarrow> nat \<Rightarrow> string \<Rightarrow> byte list" where
  "pbkdf2Sync lib password salt iterations keylen digest =
     map (pbkdf2_stream lib password salt iterations digest) [0..<keylen]"

text \<open>
  The source of randomness is a stream of bytes; \<open>randomBytes n\<close> takes the next \<open>n\<close>
  of them.
\<close>

type_synonym rng = "nat \<Rightarrow> byte"

definition randomBytes :: "nat \<Rightarrow> rng \<Rightarrow> byte list \<times> rng" where
  "randomBytes n r = (map r [0..<n], \<lambda>i. r (i + n))"

definition gcm_xor :: "crypto \<Rightarrow> byte list \<Rightarrow> byte list \<Rightarrow> byte list \<Rightarrow> byte list" where
  "gcm_xor lib key iv bs =
     map (\<lambda>(i, b). b XOR gcm_keystream lib key iv i) (zip [0..<length bs] bs)"

definition getAuthTag :: "crypto \<Rightarrow> byte list \<Rightarrow> byte list \<Rightarrow> byte list \<Rightarrow> byte list" where
  "getAuthTag lib key iv ct = map (gcm_tag lib key iv ct) [0..<16]"

text \<open>
  \<^verbatim>\<open>createCipheriv\<close> and \<^verbatim>\<open>createDecipheriv\<close> for \<^verbatim>\<open>aes-256-gcm\<close> throw unless
  the key has 32 bytes and the nonce is not empty.  The messages of the errors that the
  module throws are shortened here: \<^verbatim>\<open>encrypt\<close> and \<^verbatim>\<open>decrypt\<close> write them to the
  console and throw an error of their own.
\<close>

definition createCipheriv :: "byte list \<Rightarrow> byte list \<Rightarrow> js_error option" where
  "createCipheriv key iv =
     (if length key \<noteq> 32 then Some (Error ''Invalid key length'')
      else if iv = [] then Some (Error ''Invalid initialization vector'')
      else None)"

text \<open>
  \<^verbatim>\<open>setAuthTag\<close> throws unless the tag has one of the lengths GCM allows; without an
  \<^verbatim>\<open>authTagLength\<close> option a shorter tag is compared with the leading bytes of the
  computed one.  \<^verbatim>\<open>update\<close> with input encoding \<^verbatim>\<open>'hex'\<close> throws on a string with an
  odd number of code units.  \<^verbatim>\<open>final\<close> throws when the tag does not verify.  The
  deciphered bytes are read as UTF-8.
\<close>

definition setAuthTag :: "byte list \<Rightarrow> js_error option" where
  "setAuthTag tag =
     (if length tag \<in> {4, 8, 12, 13, 14, 15, 16} then None
      else Some (Error ''Invalid authentication tag length''))"

definition decipher ::
  "crypto \<Rightarrow> byte list \<Rightarrow> byte list \<Rightarrow> byte list \<Rightarrow> jsstring \<Rightarrow> js_error + jsstring" where
  "decipher lib key iv tag encrypted =
     (if odd (length encrypted)
      then Inl (Error ''The argument encoding is invalid for data of this length'')
      else
        let ct = fromHex encrypted in
        if take (length tag) (getAuthTag lib key iv ct) = tag
        then Inr (utf8_string (gcm_xor lib key iv ct))
        else Inl (Error ''Unsupported state or unable to authenticate data''))"

section \<open>The secret cipher (\<^verbatim>\<open>utils/encryption.js\<close>)\<close>

definition IV_LENGTH :: nat where "IV_LENGTH = 16"
definition SALT_LENGTH :: nat where "SALT_LENGTH = 64"
definition TAG_LENGTH :: nat where "TAG_LENGTH = 16"
definition KEY_LENGTH :: nat where "KEY_LENGTH = 32"
definition ITERATIONS :: int where "ITERATIONS = 100000"

text \<open>The process environment: the variables the modelled code reads.\<close>

record environment =
  ENCRYPTION_SECRET :: "jsstring option"
  GEMINI_API_KEY :: "jsstring option"
  GROK_API_KEY :: "jsstring option"

definition deriveKey :: "crypto \<Rightarrow> jsstring \<Rightarrow> byte list \<Rightarrow> byte list" where
  "deriveKey lib secret salt = pbkdf2Sync lib secret salt ITERATIONS KEY_LENGTH ''sha256''"

text \<open>
  The body of the \<^verbatim>\<open>try\<close> block of \<^verbatim>\<open>encrypt\<close>.  The text is a string by its type;
  the empty string is the falsy one.  The colon is the code unit 58.
\<close>

definition encrypt_try ::
  "crypto \<Rightarrow> environment \<Rightarrow> rng \<Rightarrow> jsstring \<Rightarrow> (js_error + jsstring) \<times> rng" where
  "encrypt_try lib env r text =
     (if text = [] then (Inl (Error ''Invalid input for encryption''), r)
      else if \<not> truthy (ENCRYPTION_SECRET env)
      then (Inl (Error ''ENCRYPTION_SECRET is not set in environment variables''), r)
      else
        let (salt, r1) = randomBytes SALT_LENGTH r;
            (iv, r2) = randomBytes IV_LENGTH r1;
            key = deriveKey lib (the (ENCRYPTION_SECRET env)) salt
        in case createCipheriv key iv of
             Some e \<Rightarrow> (Inl e, r2)
           | None \<Rightarrow>
               let encrypted = toHex (gcm_xor lib key iv (utf8_bytes text));
                   authTag = getAuthTag lib key iv (gcm_xor lib key iv (utf8_bytes text))
               in (Inr (toHex salt @ [colon] @ toHex iv @ [colon] @ toHex authTag @ [colon] @ encrypted),
                   r2))"

text \<open>
  The \<^verbatim>\<open>catch\<close> clause logs the message of whatever was thrown and throws one fixed
  error in its place.
\<close>

definition encrypt ::
  "crypto \<Rightarrow> environment \<Rightarrow> rng \<Rightarrow> jsstring \<Rightarrow> (js_error + jsstring) \<times> rng" where
  "encrypt lib env r text =
     (case encrypt_try lib env r text of
        (Inl e, r') \<Rightarrow> (Inl (Error ''Failed to encrypt data''), r')
      | (Inr c, r') \<Rightarrow> (Inr c, r'))"

definition decrypt_try :: "crypto \<Rightarrow> environment \<Rightarrow> jsstring \<Rightarrow> js_error + jsstring" where
  "decrypt_try lib env encryptedText =
     (if encryptedText = [] then Inl (Error ''Invalid input for decryption'')
      else if \<not> truthy (ENCRYPTION_SECRET env)
      then Inl (Error ''ENCRYPTION_SECRET is not set in environment variables'')
      else
        let parts = js_split colon encryptedText in
        if length parts \<noteq> 4 then Inl (Error ''Invalid encrypted data format'')
        else
          let salt = fromHex (parts ! 0);
              iv = fromHex (parts ! 1);
              authTag = fromHex (parts ! 2);
              encrypted = parts ! 3;
              key = deriveKey lib (the (ENCRYPTION_SECRET env)) salt
          in case createCipheriv key iv of
               Some e \<Rightarrow> Inl e
             | None \<Rightarrow>
                 (case setAuthTag authTag of
                    Some e \<Rightarrow> Inl e
                  | None \<Rightarrow> decipher lib key iv authTag encrypted))"

definition decrypt :: "crypto \<Rightarrow> environment \<Rightarrow> jsstring \<Rightarrow> js_error + jsstring" where
  "decrypt lib env encryptedText =
     (case decrypt_try lib env encryptedText of
        Inl e \<Rightarrow> Inl (Error ''Failed to decrypt data'')
      | Inr s \<Rightarrow> Inr s)"

definition isEncrypted :: "jsstring \<Rightarrow> bool" where
  "isEncrypted text = (text \<noteq> [] \<and> length (js_split colon text) = 4)"


section \<open>The provider registry and the key validator (\<^verbatim>\<open>utils/aiHelper.js\<close>)\<close>

definition AVAILABLE_MODELS :: "(string \<times> string list) list" where
  "AVAILABLE_MODELS =
     [(''gemini'',
       [''gemini-2.5-flash-lite'',
        ''gemini-2.5-flash-preview-09-2025'',
        ''gemini-2.5-flash-lite-preview-09-2025'',
        ''gemini-2.0-flash'',
        ''gemini-2.0-flash-lite'']),
      (''grok'',
       [''llama-3.3-70b-versatile'',
        ''llama-3.1-8b-instant'',
        ''meta-llama/llama-4-scout-17b-16e-instruct'',
        ''openai/gpt-oss-120b''])]"

text \<open>
  The callers modelled here pass \<^verbatim>\<open>'gemini'\<close> or \<^verbatim>\<open>'grok'\<close> only; a name that is
  no key of the table gives the empty list.
\<close>

definition getAvailableModels :: "string \<Rightarrow> string list" where
  "getAvailableModels provider =
     (case map_of AVAILABLE_MODELS provider of Some ms \<Rightarrow> ms | None \<Rightarrow> [])"

text \<open>
  \<^verbatim>\<open>getAIConfig\<close> of the helper module: the user's key when it is truthy, otherwise the
  server's own key for the provider, read from the environment.
\<close>

definition aiHelper_getAIConfig ::
  "environment \<Rightarrow> jsstring option \<Rightarrow> string \<Rightarrow> string
     \<Rightarrow> js_error + (jsstring \<times> string \<times> string)" where
  "aiHelper_getAIConfig env userApiKey provider model =
     (let apiKey = (if truthy userApiKey then userApiKey
                    else if provider = ''gemini'' then GEMINI_API_KEY env
                    else GROK_API_KEY env)
      in if \<not> truthy apiKey
         then Inl (Error (''No '' @ provider @
                '' API key available. Please provide your API key in profile settings.''))
         else Inr (the apiKey, provider, model))"

text \<open>
  \<^verbatim>\<open>s.trim().length === 0\<close>: every code unit of the string is white space or a line
  terminator (U+0009 to U+000D, U+0020, U+00A0, U+1680, U+2000 to U+200A, U+2028, U+2029,
  U+202F, U+205F, U+3000, U+FEFF).
\<close>

definition js_white :: "code_unit \<Rightarrow> bool" where
  "js_white c =
     (let n = uint c in
      (9 \<le> n \<and> n \<le> 13) \<or> n = 32 \<or> n = 160 \<or> n = 5760 \<or> (8192 \<le> n \<and> n \<le> 8202) \<or>
      n = 8232 \<or> n = 8233 \<or> n = 8239 \<or> n = 8287 \<or> n = 12288 \<or> n = 65279)"

definition js_blank :: "jsstring \<Rightarrow> bool" where
  "js_blank s = list_all js_white s"

text \<open>\<^verbatim>\<open>String.prototype.includes\<close>.\<close>

fun str_includes :: "string \<Rightarrow> string \<Rightarrow> bool" where
  "str_includes [] sub = (sub = [])"
| "str_includes (c # cs) sub = (take (length sub) (c # cs) = sub \<or> str_includes cs sub)"

text \<open>
  The calls to the providers' services leave the process; their outcomes are parameters:
  for a key and a model, the reply text to the test prompt or the error thrown.
\<close>

record ai_services =
  callGroqAPI :: "jsstring \<Rightarrow> string \<Rightarrow> js_error + string"
  generateContent :: "jsstring \<Rightarrow> string \<Rightarrow> js_error + string"

definition validateApiKey_try ::
  "ai_services \<Rightarrow> jsstring \<Rightarrow> string \<Rightarrow> string \<Rightarrow> js_error + bool" where
  "validateApiKey_try api apiKey provider model =
     (if js_blank apiKey then Inl (Error ''API key is required'')
      else if provider = ''grok'' then
        (case callGroqAPI api apiKey model of Inl e \<Rightarrow> Inl e | Inr _ \<Rightarrow> Inr True)
      else
        (case generateContent api apiKey model of
           Inl e \<Rightarrow> Inl e
         | Inr text \<Rightarrow> if text = [] then Inl (Error ''Invalid API response'') else Inr True))"

definition validateApiKey ::
  "ai_services \<Rightarrow> jsstring \<Rightarrow> string \<Rightarrow> string \<Rightarrow> js_error + bool" where
  "validateApiKey api apiKey provider model =
     (case validateApiKey_try api apiKey provider model of
        Inr ok \<Rightarrow> Inr ok
      | Inl (Error msg) \<Rightarrow>
          if str_includes msg ''API_KEY_INVALID'' \<or> str_includes msg ''invalid'' \<or>
             str_includes msg ''401'' \<or> str_includes msg ''403''
          then Inl (Error (''Invalid '' @ provider @ '' API key. Please check your API key.''))
          else Inl (Error (''API key validation failed: '' @ msg)))"

section \<open>The credential record and the handlers (\<^verbatim>\<open>controllers/profileController.js\<close>)\<close>

text \<open>
  The four fields of the user document that the handlers read and write.  The collection
  maps a user identifier to its document; \<^verbatim>\<open>findById\<close> is the lookup, and assigning
  fields followed by \<^verbatim>\<open>save()\<close> is the update of the map.
\<close>

record user =
  aiProvider :: "string option"
  aiModel :: "string option"
  aiApiKey :: "jsstring option"
  geminiApiKey :: "jsstring option"

type_synonym users = "string \<rightharpoonup> user"

datatype json = JBool bool | JStr string | JArr "json list" | JObj "(string \<times> json) list"

record response =
  status :: nat
  body :: json

text \<open>Reading a member of a JSON object.\<close>

definition json_get :: "string \<Rightarrow> json \<Rightarrow> json option" where
  "json_get k j = (case j of JObj kvs \<Rightarrow> map_of kvs k | _ \<Rightarrow> None)"

text \<open>
  The request body of the two setters.  For \<open>body_apiKey\<close>, \<open>None\<close> stands for a missing
  value and for one that is not a string; for the other two it stands for a missing one.
\<close>

record ai_config_body =
  body_apiKey :: "jsstring option"
  body_provider :: "string option"
  body_model :: "string option"

definition invalid_apiKey :: "jsstring option \<Rightarrow> bool" where
  "invalid_apiKey k = (case k of None \<Rightarrow> True | Some s \<Rightarrow> js_blank s)"

text \<open>
  The destructuring default \<^verbatim>\<open>provider = 'gemini'\<close> and line 159, the model the call
  goes on with.
\<close>

definition request_provider :: "ai_config_body \<Rightarrow> string" where
  "request_provider req = (case body_provider req of None \<Rightarrow> ''gemini'' | Some p \<Rightarrow> p)"

definition selectedModel :: "ai_config_body \<Rightarrow> string" where
  "selectedModel req =
     (if truthy (body_model req) then the (body_model req)
      else if request_provider req = ''gemini'' then ''gemini-2.5-flash-lite''
      else ''llama-3.3-70b-versatile'')"

definition setAIConfig ::
  "crypto \<Rightarrow> environment \<Rightarrow> ai_services \<Rightarrow> string \<Rightarrow> ai_config_body \<Rightarrow> users \<Rightarrow> rng
     \<Rightarrow> response \<times> users \<times> rng" where
  "setAIConfig lib env api uid req db r =
     (if invalid_apiKey (body_apiKey req) then
        (\<lparr>status = 400, body = JObj [(''success'', JBool False),
            (''message'', JStr ''Please provide a valid API key'')]\<rparr>, db, r)
      else
        let apiKey = the (body_apiKey req);
            provider = request_provider req
        in
        if provider \<notin> set [''gemini'', ''grok''] then
          (\<lparr>status = 400, body = JObj [(''success'', JBool False),
              (''message'', JStr (''Provider must be either '' @ [CHR 0x22] @ ''gemini'' @
                 [CHR 0x22] @ '' or '' @ [CHR 0x22] @ ''grok'' @ [CHR 0x22]))]\<rparr>, db, r)
        else
          let model = selectedModel req;
              availableModels = getAvailableModels provider
          in
          if model \<notin> set availableModels then
            (\<lparr>status = 400, body = JObj [(''success'', JBool False),
                (''message'', JStr (''Model '' @ [CHR 0x22] @ model @ [CHR 0x22] @
                   '' is not available for provider '' @ [CHR 0x22] @ provider @ [CHR 0x22])),
                (''data'', JObj [(''availableModels'', JArr (map JStr availableModels))])]\<rparr>,
             db, r)
          else
            (case validateApiKey api apiKey provider model of
               Inl (Error msg) \<Rightarrow>
                 (\<lparr>status = 400, body = JObj [(''success'', JBool False),
                     (''message'', JStr msg)]\<rparr>, db, r)
             | Inr _ \<Rightarrow>
                 (case encrypt lib env r apiKey of
                    (Inl (Error msg), r') \<Rightarrow>
                      (\<lparr>status = 500, body = JObj [(''success'', JBool False),
                          (''message'', JStr ''Failed to save AI configuration''),
                          (''error'', JStr msg)]\<rparr>, db, r')
                  | (Inr encryptedKey, r') \<Rightarrow>
                      (case db uid of
                         None \<Rightarrow>
                           (\<lparr>status = 500, body = JObj [(''success'', JBool False),
                               (''message'', JStr ''Failed to save AI configuration''),
                               (''error'', JStr (''Cannot set properties of null (setting '' @ [CHR 0x27] @ ''aiApiKey'' @ [CHR 0x27] @ '')''))]\<rparr>, db, r')
                       | Some user \<Rightarrow>
                           (\<lparr>status = 200, body = JObj [(''success'', JBool True),
                               (''message'', JStr ''AI configuration saved successfully''),
                               (''data'', JObj [(''hasApiKey'', JBool True),
                                  (''provider'', JStr provider),
                                  (''model'', JStr model)])]\<rparr>,
                            db(uid \<mapsto> user\<lparr>aiApiKey := Some encryptedKey,
                                              aiProvider := Some provider,
                                              aiModel := Some model\<rparr>),
                            r')))))"

text \<open>The legacy setter: the provider and the model are fixed.\<close>

definition setApiKey ::
  "crypto \<Rightarrow> environment \<Rightarrow> ai_services \<Rightarrow> string \<Rightarrow> ai_config_body \<Rightarrow> users \<Rightarrow> rng
     \<Rightarrow> response \<times> users \<times> rng" where
  "setApiKey lib env api uid req db r =
     (if invalid_apiKey (body_apiKey req) then
        (\<lparr>status = 400, body = JObj [(''success'', JBool False),
            (''message'', JStr ''Please provide a valid API key'')]\<rparr>, db, r)
      else
        let apiKey = the (body_apiKey req);
            provider = ''gemini'';
            model = ''gemini-2.5-flash-lite''
        in
        (case validateApiKey api apiKey provider model of
           Inl (Error msg) \<Rightarrow>
             (\<lparr>status = 400, body = JObj [(''success'', JBool False),
                 (''message'', JStr msg)]\<rparr>, db, r)
         | Inr _ \<Rightarrow>
             (case encrypt lib env r apiKey of
                (Inl (Error msg), r') \<Rightarrow>
                  (\<lparr>status = 500, body = JObj [(''success'', JBool False),
                      (''message'', JStr ''Failed to save API key''),
                      (''error'', JStr msg)]\<rparr>, db, r')
              | (Inr encryptedKey, r') \<Rightarrow>
                  (case db uid of
                     None \<Rightarrow>
                       (\<lparr>status = 500, body = JObj [(''success'', JBool False),
                           (''message'', JStr ''Failed to save API key''),
                           (''error'', JStr (''Cannot set properties of null (setting '' @ [CHR 0x27] @ ''aiApiKey'' @ [CHR 0x27] @ '')''))]\<rparr>, db, r')
                   | Some user \<Rightarrow>
                       (\<lparr>status = 200, body = JObj [(''success'', JBool True),
                           (''message'', JStr ''API key saved successfully''),
                           (''data'', JObj [(''hasApiKey'', JBool True)])]\<rparr>,
                        db(uid \<mapsto> user\<lparr>aiApiKey := Some encryptedKey,
                                          aiProvider := Some provider,
                                          aiModel := Some model,
                                          geminiApiKey := Some encryptedKey\<rparr>),
                        r')))))"

definition getAIConfig :: "string \<Rightarrow> users \<Rightarrow> response" where
  "getAIConfig uid db =
     (case db uid of
        None \<Rightarrow>
          \<lparr>status = 500, body = JObj [(''success'', JBool False),
              (''message'', JStr ''Server error''),
              (''error'', JStr (''Cannot read properties of null (reading '' @ [CHR 0x27] @ ''aiApiKey'' @ [CHR 0x27] @ '')''))]\<rparr>
      | Some user \<Rightarrow>
          \<lparr>status = 200, body = JObj [(''success'', JBool True),
              (''data'', JObj
                 [(''hasApiKey'', JBool (truthy (aiApiKey user) \<or> truthy (geminiApiKey user))),
                  (''provider'',
                     JStr (if truthy (aiProvider user) then the (aiProvider user) else ''gemini'')),
                  (''model'',
                     JStr (if truthy (aiModel user) then the (aiModel user)
                           else ''gemini-2.5-flash-lite'')),
                  (''availableModels'', JObj
                     [(''gemini'', JArr (map JStr (getAvailableModels ''gemini''))),
                      (''grok'', JArr (map JStr (getAvailableModels ''grok'')))])])]\<rparr>)"

definition deleteAIConfig :: "string \<Rightarrow> users \<Rightarrow> response \<times> users" where
  "deleteAIConfig uid db =
     (case db uid of
        None \<Rightarrow>
          (\<lparr>status = 500, body = JObj [(''success'', JBool False),
              (''message'', JStr ''Failed to remove AI configuration''),
              (''error'', JStr (''Cannot set properties of null (setting '' @ [CHR 0x27] @ ''aiApiKey'' @ [CHR 0x27] @ '')''))]\<rparr>, db)
      | Some user \<Rightarrow>
          (\<lparr>status = 200, body = JObj [(''success'', JBool True),
              (''message'', JStr ''AI configuration removed successfully''),
              (''data'', JObj [(''hasApiKey'', JBool False)])]\<rparr>,
           db(uid \<mapsto> user\<lparr>aiApiKey := None,
                             geminiApiKey := None,
                             aiProvider := Some ''gemini'',
                             aiModel := Some ''gemini-2.5-flash-lite''\<rparr>)))"

text \<open>
  Line 403 of the controller: the stored key that is decrypted for use.  It is evaluated
  only after the guard that one of the two fields is truthy.
\<close>

definition decryptedKey :: "crypto \<Rightarrow> environment \<Rightarrow> user \<Rightarrow> js_error + jsstring" where
  "decryptedKey lib env user =
     (if truthy (aiApiKey user) then decrypt lib env (the (aiApiKey user))
      else if truthy (geminiApiKey user) then decrypt lib env (the (geminiApiKey user))
      else Inl (Error ''Failed to decrypt data''))"

definition validateStoredAIConfig ::
  "crypto \<Rightarrow> environment \<Rightarrow> ai_services \<Rightarrow> string \<Rightarrow> users \<Rightarrow> response" where
  "validateStoredAIConfig lib env api uid db =
     (case db uid of
        None \<Rightarrow>
          \<lparr>status = 400, body = JObj [(''success'', JBool False),
              (''message'', JStr ''AI configuration validation failed''),
              (''error'', JStr (''Cannot read properties of null (reading '' @ [CHR 0x27] @ ''aiApiKey'' @ [CHR 0x27] @ '')''))]\<rparr>
      | Some user \<Rightarrow>
          if \<not> truthy (aiApiKey user) \<and> \<not> truthy (geminiApiKey user) then
            \<lparr>status = 404, body = JObj [(''success'', JBool False),
                (''message'', JStr ''No API key configured'')]\<rparr>
          else
            (case decryptedKey lib env user of
               Inl (Error msg) \<Rightarrow>
                 \<lparr>status = 400, body = JObj [(''success'', JBool False),
                     (''message'', JStr ''AI configuration validation failed''),
                     (''error'', JStr msg)]\<rparr>
             | Inr key \<Rightarrow>
                 let provider = (if truthy (aiProvider user) then the (aiProvider user)
                                 else ''gemini'');
                     model = (if truthy (aiModel user) then the (aiModel user)
                              else ''gemini-2.5-flash-lite'')
                 in
                 (case validateApiKey api key provider model of
                    Inl (Error msg) \<Rightarrow>
                      \<lparr>status = 400, body = JObj [(''success'', JBool False),
                          (''message'', JStr ''AI configuration validation failed''),
                          (''error'', JStr msg)]\<rparr>
                  | Inr _ \<Rightarrow>
                      \<lparr>status = 200, body = JObj [(''success'', JBool True),
                          (''message'', JStr ''AI configuration is valid''),
                          (''data'', JObj [(''isValid'', JBool True),
                             (''provider'', JStr provider),
                             (''model'', JStr model)])]\<rparr>)))"

section \<open>The key handed to the AI calls (\<^verbatim>\<open>controllers/recipeController.js\<close>)\<close>

text \<open>
  Lines 36 to 43 of \<^verbatim>\<open>generateRecipes\<close> (the same lines stand in
  \<^verbatim>\<open>generateSingleRecipe\<close> and in the ingredient detection handler): the key of the
  user, decrypted, or \<^verbatim>\<open>null\<close>.
\<close>

definition userApiKey :: "crypto \<Rightarrow> environment \<Rightarrow> user \<Rightarrow> js_error + jsstring option" where
  "userApiKey lib env user =
     (if truthy (aiApiKey user) then
        (case decrypt lib env (the (aiApiKey user)) of Inl e \<Rightarrow> Inl e | Inr k \<Rightarrow> Inr (Some k))
      else if truthy (geminiApiKey user) then
        (case decrypt lib env (the (geminiApiKey user)) of Inl e \<Rightarrow> Inl e | Inr k \<Rightarrow> Inr (Some k))
      else Inr None)"

text \<open>
  What \<^verbatim>\<open>generateRecipes\<close> does with the key, for a request that passed its checks:
  \<^verbatim>\<open>generateMultipleRecipes\<close> calls \<^verbatim>\<open>generateRecipe\<close> at least once, which begins
  with \<^verbatim>\<open>getAIConfig\<close> of the helper module and rethrows what that throws with a prefix.
  The result is the key, provider and model of the outgoing call, or the error thrown
  before it.
\<close>

definition generateRecipes_config ::
  "crypto \<Rightarrow> environment \<Rightarrow> user \<Rightarrow> js_error + (jsstring \<times> string \<times> string)" where
  "generateRecipes_config lib env user =
     (case userApiKey lib env user of
        Inl e \<Rightarrow> Inl e
      | Inr key \<Rightarrow>
          let provider = (if truthy (aiProvider user) then the (aiProvider user) else ''gemini'');
              model = (if truthy (aiModel user) then the (aiModel user)
                       else ''gemini-2.5-flash-lite'')
          in
          (case aiHelper_getAIConfig env key provider model of
             Inl (Error msg) \<Rightarrow> Inl (Error (''Failed to generate recipe: '' @ msg))
           | Inr c \<Rightarrow> Inr c))"

section \<open>The value produced by a successful encryption\<close>

text \<open>
  The string \<^verbatim>\<open>encrypt\<close> assembles from a salt, a nonce and a text, and the bytes one
  call draws from the source of randomness.
\<close>

definition ciphertext_of ::
  "crypto \<Rightarrow> jsstring \<Rightarrow> byte list \<Rightarrow> byte list \<Rightarrow> jsstring \<Rightarrow> jsstring" where
  "ciphertext_of lib secret salt iv text =
     (let key = deriveKey lib secret salt;
          ct = gcm_xor lib key iv (utf8_bytes text)
      in toHex salt @ [colon] @ toHex iv @ [colon] @ toHex (getAuthTag lib key iv ct) @ [colon] @
         toHex ct)"

definition drawn_salt :: "rng \<Rightarrow> byte list" where
  "drawn_salt r = fst (randomBytes SALT_LENGTH r)"

definition drawn_iv :: "rng \<Rightarrow> byte list" where
  "drawn_iv r = fst (randomBytes IV_LENGTH (snd (randomBytes SALT_LENGTH r)))"

definition rng_after :: "rng \<Rightarrow> rng" where
  "rng_after r = snd (randomBytes IV_LENGTH (snd (randomBytes SALT_LENGTH r)))"

section \<open>A property of the authentication tag\<close>

text \<open>
  Under a given key and nonce, the tag of a ciphertext is not the tag of the same
  ciphertext with one byte replaced by another.  GCM has the property for every key whose
  hash subkey is not zero.
\<close>

definition tag_detects_byte_change :: "crypto \<Rightarrow> byte list \<Rightarrow> byte list \<Rightarrow> bool" where
  "tag_detects_byte_change lib key iv =
     (\<forall>ct i b. i < length ct \<and> b \<noteq> ct ! i \<longrightarrow>
        getAuthTag lib key iv (ct[i := b]) \<noteq> getAuthTag lib key iv ct)"

section \<open>A concrete instance of the parameters\<close>

text \<open>
  Small stand-ins for the primitives, the environment, the random source and the
  providers' services, on which the statements below are run at concrete inputs.  The tag
  of the instance is the exclusive or of the ciphertext bytes, followed by fixed bytes.
\<close>

definition sample_crypto :: crypto where
  "sample_crypto =
     \<lparr>pbkdf2_stream = (\<lambda>password salt iterations digest i.
          word_of_nat (length password + length salt + i)),
      gcm_keystream = (\<lambda>key iv i. word_of_nat (length key + length iv + i)),
      gcm_tag = (\<lambda>key iv ct i. if i = 0 then foldr (XOR) ct 0 else word_of_nat (length iv + i))\<rparr>"

definition sample_env :: environment where
  "sample_env = \<lparr>ENCRYPTION_SECRET = Some (js ''master''), GEMINI_API_KEY = None, GROK_API_KEY = None\<rparr>"

definition sample_rng :: rng where
  "sample_rng = (\<lambda>i. word_of_nat (3 * i))"

text \<open>What \<^verbatim>\<open>encrypt\<close> returns for the text \<^verbatim>\<open>key\<close> on this instance.\<close>

definition sample_ciphertext :: jsstring where
  "sample_ciphertext = js ''000306090c0f1215181b1e2124272a2d303336393c3f4245484b4e5154575a5d606366696c6f7275787b7e8184878a8d909396999c9fa2a5a8abaeb1b4b7babd:c0c3c6c9cccfd2d5d8dbdee1e4e7eaed:441112131415161718191a1b1c1d1e1f:5b544b''"

text \<open>What \<^verbatim>\<open>encrypt\<close> returns on this instance for the string of the one code unit U+D800.\<close>

definition lone_surrogate_ciphertext :: jsstring where
  "lone_surrogate_ciphertext = js ''000306090c0f1215181b1e2124272a2d303336393c3f4245484b4e5154575a5d606366696c6f7275787b7e8184878a8d909396999c9fa2a5a8abaeb1b4b7babd:c0c3c6c9cccfd2d5d8dbdee1e4e7eaed:de1112131415161718191a1b1c1d1e1f:df8e8f''"

definition sample_services :: ai_services where
  "sample_services =
     \<lparr>callGroqAPI = (\<lambda>apiKey model.
          if apiKey = js ''good-key'' then Inr ''OK''
          else Inl (Error ''Failed to call Groq API: Groq API Error: Invalid API Key'')),
      generateContent = (\<lambda>apiKey model.
          if apiKey = js ''good-key'' then Inr ''OK''
          else Inl (Error ''[400 Bad Request] API key not valid. API_KEY_INVALID''))\<rparr>"

text \<open>A user as the schema creates it, and one who holds only a key of the old kind.\<close>

definition new_user :: user where
  "new_user = \<lparr>aiProvider = Some ''gemini'', aiModel = Some ''gemini-2.5-flash-lite'',
                aiApiKey = None, geminiApiKey = None\<rparr>"

definition legacy_user :: user where
  "legacy_user = \<lparr>aiProvider = None, aiModel = None,
                   aiApiKey = None, geminiApiKey = Some sample_ciphertext\<rparr>"

definition sample_users :: users where
  "sample_users = [''u1'' \<mapsto> new_user, ''u2'' \<mapsto> legacy_user]"

text \<open>
  Strings made from \<open>sample_ciphertext\<close>: the first hex digit of the tag segment changed
  from 4 to 5; the first hex digit of the ciphertext segment changed from 5 to 6; the letter
  \<^verbatim>\<open>a\<close> of the tag segment written as \<^verbatim>\<open>A\<close>; and \<^verbatim>\<open>zz\<close> appended to the salt
  segment.
\<close>

definition tampered_tag :: jsstring where
  "tampered_tag = js ''000306090c0f1215181b1e2124272a2d303336393c3f4245484b4e5154575a5d606366696c6f7275787b7e8184878a8d909396999c9fa2a5a8abaeb1b4b7babd:c0c3c6c9cccfd2d5d8dbdee1e4e7eaed:541112131415161718191a1b1c1d1e1f:5b544b''"

definition tampered_ciphertext :: jsstring where
  "tampered_ciphertext = js ''000306090c0f1215181b1e2124272a2d303336393c3f4245484b4e5154575a5d606366696c6f7275787b7e8184878a8d909396999c9fa2a5a8abaeb1b4b7babd:c0c3c6c9cccfd2d5d8dbdee1e4e7eaed:441112131415161718191a1b1c1d1e1f:6b544b''"

definition recased_tag :: jsstring where
  "recased_tag = js ''000306090c0f1215181b1e2124272a2d303336393c3f4245484b4e5154575a5d606366696c6f7275787b7e8184878a8d909396999c9fa2a5a8abaeb1b4b7babd:c0c3c6c9cccfd2d5d8dbdee1e4e7eaed:441112131415161718191A1b1c1d1e1f:5b544b''"

definition junk_in_salt :: jsstring where
  "junk_in_salt = js ''000306090c0f1215181b1e2124272a2d303336393c3f4245484b4e5154575a5d606366696c6f7275787b7e8184878a8d909396999c9fa2a5a8abaeb1b4b7babdzz:c0c3c6c9cccfd2d5d8dbdee1e4e7eaed:441112131415161718191a1b1c1d1e1f:5b544b''"

section \<open>Facts about the encodings\<close>

lemma utf8_dec_one:
  assumes "b < 128"
  shows "utf8_dec (b # rest) utf8_init = b # utf8_dec rest utf8_init"
  using assms by (simp add: utf8_init_def utf8_lead_def)

lemma utf8_dec_two:
  assumes "194 \<le> b" "b \<le> 223" "128 \<le> c" "c \<le> 191"
  shows "utf8_dec (b # c # rest) utf8_init =
           utf16_units ((b - 192) * 64 + (c - 128)) @ utf8_dec rest utf8_init"
  using assms by (simp add: utf8_init_def utf8_lead_def)

lemma utf8_dec_three:
  assumes "224 \<le> b" "b \<le> 239" "128 \<le> c" "c \<le> 191" "b = 224 \<longrightarrow> 160 \<le> c"
    "b = 237 \<longrightarrow> c \<le> 159" "128 \<le> d" "d \<le> 191"
  shows "utf8_dec (b # c # d # rest) utf8_init =
           utf16_units (((b - 224) * 64 + (c - 128)) * 64 + (d - 128)) @ utf8_dec rest utf8_init"
  using assms by (simp add: utf8_init_def utf8_lead_def)

lemma utf8_dec_four:
  assumes "240 \<le> b" "b \<le> 244" "128 \<le> c" "c \<le> 191" "b = 240 \<longrightarrow> 144 \<le> c"
    "b = 244 \<longrightarrow> c \<le> 143" "128 \<le> d" "d \<le> 191" "128 \<le> e" "e \<le> 191"
  shows "utf8_dec (b # c # d # e # rest) utf8_init =
           utf16_units ((((b - 240) * 64 + (c - 128)) * 64 + (d - 128)) * 64 + (e - 128)) @
           utf8_dec rest utf8_init"
  using assms by (simp add: utf8_init_def utf8_lead_def)

lemma utf8_dec_unit:
  assumes "0 \<le> u" "u < 65536" "\<not> is_high u" "\<not> is_low u"
  shows "utf8_dec (utf8_of_unit u @ rest) utf8_init = u # utf8_dec rest utf8_init"
proof -
  consider "u < 128" | "128 \<le> u" "u < 2048" | "2048 \<le> u" by linarith
  then show ?thesis
  proof cases
    case 1
    then have "utf8_of_unit u = [u]" by (simp add: utf8_of_unit_def)
    with 1 show ?thesis by (simp add: utf8_dec_one del: utf8_dec.simps)
  next
    case 2
    define q where "q = u div 64"
    define d where "d = u mod 64"
    have enc: "utf8_of_unit u = [192 + q, 128 + d]"
      using 2 by (simp add: utf8_of_unit_def q_def d_def)
    have u: "u = q * 64 + d" by (simp add: q_def d_def)
    have d: "0 \<le> d" "d < 64" by (simp_all add: d_def)
    from 2 u d have q: "2 \<le> q" "q \<le> 31" by linarith+
    have "utf8_dec ((192 + q) # (128 + d) # rest) utf8_init =
        utf16_units ((192 + q - 192) * 64 + (128 + d - 128)) @ utf8_dec rest utf8_init"
      using q d by (intro utf8_dec_two) linarith+
    moreover have "(192 + q - 192) * 64 + (128 + d - 128) = u" using u by simp
    moreover have "utf16_units u = [u]" using assms by (simp add: utf16_units_def)
    ultimately show ?thesis using enc by (simp del: utf8_dec.simps)
  next
    case 3
    define q1 where "q1 = u div 64"
    define d where "d = u mod 64"
    define q2 where "q2 = q1 div 64"
    define c where "c = q1 mod 64"
    have q2': "u div 4096 = q2" by (simp add: q2_def q1_def zdiv_zmult2_eq [symmetric])
    have enc: "utf8_of_unit u = [224 + q2, 128 + c, 128 + d]"
      using 3 assms by (simp add: utf8_of_unit_def q2' c_def q1_def d_def)
    have u: "u = q1 * 64 + d" "q1 = q2 * 64 + c" by (simp_all add: q1_def d_def q2_def c_def)
    have b: "0 \<le> d" "d < 64" "0 \<le> c" "c < 64" by (simp_all add: d_def c_def)
    from 3 assms u b have q2: "0 \<le> q2" "q2 \<le> 15" by linarith+
    have lo: "224 + q2 = 224 \<longrightarrow> 160 \<le> 128 + c" using 3 u b by auto
    have hi: "224 + q2 = 237 \<longrightarrow> 128 + c \<le> 159"
      using assms u b unfolding is_high_def is_low_def by auto
    have "utf8_dec ((224 + q2) # (128 + c) # (128 + d) # rest) utf8_init =
        utf16_units (((224 + q2 - 224) * 64 + (128 + c - 128)) * 64 + (128 + d - 128)) @
        utf8_dec rest utf8_init"
      using q2 b lo hi by (intro utf8_dec_three) linarith+
    moreover have "((224 + q2 - 224) * 64 + (128 + c - 128)) * 64 + (128 + d - 128) = u"
      using u by simp
    moreover have "utf16_units u = [u]" using assms by (simp add: utf16_units_def)
    ultimately show ?thesis using enc by (simp del: utf8_dec.simps)
  qed
qed

lemma utf8_pair_digits:
  assumes "is_high h" "is_low l"
  shows "\<exists>q3 b c d. utf8_of_pair h l = [240 + q3, 128 + b, 128 + c, 128 + d] \<and>
           0 \<le> q3 \<and> q3 \<le> 4 \<and> 0 \<le> b \<and> b < 64 \<and> 0 \<le> c \<and> c < 64 \<and> 0 \<le> d \<and> d < 64 \<and>
           (q3 = 0 \<longrightarrow> 16 \<le> b) \<and> (q3 = 4 \<longrightarrow> b \<le> 15) \<and>
           ((q3 * 64 + b) * 64 + c) * 64 + d = 65536 + (h - 55296) * 1024 + (l - 56320)"
proof -
  define cp where "cp = 65536 + (h - 55296) * 1024 + (l - 56320)"
  define q1 where "q1 = cp div 64"
  define d where "d = cp mod 64"
  define q2 where "q2 = q1 div 64"
  define c where "c = q1 mod 64"
  define q3 where "q3 = q2 div 64"
  define b where "b = q2 mod 64"
  from assms have r: "65536 \<le> cp" "cp \<le> 1114111"
    by (simp_all add: cp_def is_high_def is_low_def)
  have dv: "cp div 4096 = q2" "cp div 262144 = q3"
    by (simp_all add: q3_def q2_def q1_def zdiv_zmult2_eq [symmetric])
  have enc: "utf8_of_pair h l = [240 + q3, 128 + b, 128 + c, 128 + d]"
    unfolding utf8_of_pair_def Let_def cp_def [symmetric]
    by (simp add: dv b_def c_def d_def q2_def q1_def)
  have e: "cp = q1 * 64 + d" "q1 = q2 * 64 + c" "q2 = q3 * 64 + b"
    by (simp_all add: q1_def d_def q2_def c_def q3_def b_def)
  have m: "0 \<le> d" "d < 64" "0 \<le> c" "c < 64" "0 \<le> b" "b < 64"
    by (simp_all add: d_def c_def b_def)
  from r e m have q3: "0 \<le> q3" "q3 \<le> 4" by linarith+
  from r e m have lo: "q3 = 0 \<longrightarrow> 16 \<le> b" by auto
  from r e m have hi: "q3 = 4 \<longrightarrow> b \<le> 15" by auto
  have "((q3 * 64 + b) * 64 + c) * 64 + d = cp" using e by simp
  with enc q3 m lo hi show ?thesis unfolding cp_def by blast
qed

lemma utf16_units_pair:
  assumes "is_high h" "is_low l"
  shows "utf16_units (65536 + (h - 55296) * 1024 + (l - 56320)) = [h, l]"
proof -
  define x where "x = h - 55296"
  define y where "y = l - 56320"
  from assms have b: "0 \<le> x" "0 \<le> y" "y < 1024" by (simp_all add: x_def y_def is_high_def is_low_def)
  then have "(x * 1024 + y) div 1024 = x" "(x * 1024 + y) mod 1024 = y" by simp_all
  moreover have "65536 + (h - 55296) * 1024 + (l - 56320) - 65536 = x * 1024 + y"
    by (simp add: x_def y_def)
  moreover have "\<not> 65536 + (h - 55296) * 1024 + (l - 56320) < 65536"
    using b by (simp add: x_def y_def)
  ultimately show ?thesis by (simp add: utf16_units_def x_def y_def)
qed

lemma utf8_dec_pair:
  assumes "is_high h" "is_low l"
  shows "utf8_dec (utf8_of_pair h l @ rest) utf8_init = h # l # utf8_dec rest utf8_init"
proof -
  from utf8_pair_digits [OF assms] obtain q3 b c d where
    enc: "utf8_of_pair h l = [240 + q3, 128 + b, 128 + c, 128 + d]" and
    q3: "0 \<le> q3" "q3 \<le> 4" and m: "0 \<le> b" "b < 64" "0 \<le> c" "c < 64" "0 \<le> d" "d < 64" and
    lo: "q3 = 0 \<longrightarrow> 16 \<le> b" and hi: "q3 = 4 \<longrightarrow> b \<le> 15" and
    cp: "((q3 * 64 + b) * 64 + c) * 64 + d = 65536 + (h - 55296) * 1024 + (l - 56320)"
    by blast
  have "utf8_dec ((240 + q3) # (128 + b) # (128 + c) # (128 + d) # rest) utf8_init =
      utf16_units ((((240 + q3 - 240) * 64 + (128 + b - 128)) * 64 + (128 + c - 128)) * 64 +
        (128 + d - 128)) @ utf8_dec rest utf8_init"
    using q3 m lo hi by (intro utf8_dec_four) auto
  moreover have "(((240 + q3 - 240) * 64 + (128 + b - 128)) * 64 + (128 + c - 128)) * 64 +
        (128 + d - 128) = 65536 + (h - 55296) * 1024 + (l - 56320)"
    using cp by simp
  ultimately show ?thesis using enc utf16_units_pair [OF assms] by (simp del: utf8_dec.simps)
qed

lemma utf8_dec_enc:
  assumes "\<forall>u\<in>set us. 0 \<le> u \<and> u < 65536"
  shows "(well_formed_units us False \<longrightarrow> utf8_dec (utf8_enc us None) utf8_init = us) \<and>
         (\<forall>h. is_high h \<and> well_formed_units us True \<longrightarrow>
            utf8_dec (utf8_enc us (Some h)) utf8_init = h # us)"
  using assms
proof (induction us)
  case Nil
  then show ?case by (simp add: utf8_init_def)
next
  case (Cons u us)
  then have IH: "well_formed_units us False \<Longrightarrow> utf8_dec (utf8_enc us None) utf8_init = us"
    "\<And>h. is_high h \<Longrightarrow> well_formed_units us True \<Longrightarrow>
        utf8_dec (utf8_enc us (Some h)) utf8_init = h # us"
    and u: "0 \<le> u" "u < 65536"
    by simp_all
  show ?case
  proof (intro conjI allI impI)
    assume wf: "well_formed_units (u # us) False"
    show "utf8_dec (utf8_enc (u # us) None) utf8_init = u # us"
    proof (cases "is_high u")
      case True
      with wf IH(2) show ?thesis by simp
    next
      case False
      with wf have "\<not> is_low u" "well_formed_units us False" by simp_all
      with False u IH(1) show ?thesis by (simp add: utf8_dec_unit)
    qed
  next
    fix h assume "is_high h \<and> well_formed_units (u # us) True"
    then have "is_high h" "is_low u" "well_formed_units us False" by simp_all
    with IH(1) show "utf8_dec (utf8_enc (u # us) (Some h)) utf8_init = h # u # us"
      by (simp add: utf8_dec_pair)
  qed
qed

lemma utf8_of_unit_bytes:
  assumes "0 \<le> u" "u < 65536" "b \<in> set (utf8_of_unit u)"
  shows "0 \<le> b \<and> b < 256"
proof -
  have d: "0 \<le> u mod 64" "u mod 64 < 64" "0 \<le> u div 64 mod 64" "u div 64 mod 64 < 64" by simp_all
  have q: "0 \<le> u div 64" "u < 2048 \<longrightarrow> u div 64 < 32" "0 \<le> u div 4096" "u div 4096 < 16"
    using assms(1,2) by auto
  from assms(3) d q assms(1,2) show ?thesis
    by (auto simp: utf8_of_unit_def split: if_splits)
qed

lemma utf8_of_pair_bytes:
  assumes "is_high h" "is_low l" "x \<in> set (utf8_of_pair h l)"
  shows "0 \<le> x \<and> x < 256"
proof -
  from utf8_pair_digits [OF assms(1,2)] obtain q3 b c d where
    enc: "utf8_of_pair h l = [240 + q3, 128 + b, 128 + c, 128 + d]" and
    q3: "0 \<le> q3" "q3 \<le> 4" and m: "0 \<le> b" "b < 64" "0 \<le> c" "c < 64" "0 \<le> d" "d < 64"
    by blast
  from assms(3) enc q3 m show ?thesis by auto
qed

lemma utf8_enc_bytes:
  assumes "\<forall>u\<in>set us. 0 \<le> u \<and> u < 65536"
  shows "(\<forall>b\<in>set (utf8_enc us None). 0 \<le> b \<and> b < 256) \<and>
         (\<forall>h. is_high h \<longrightarrow> (\<forall>b\<in>set (utf8_enc us (Some h)). 0 \<le> b \<and> b < 256))"
  using assms
proof (induction us)
  case Nil
  then show ?case by simp
next
  case (Cons u us)
  then have u: "0 \<le> u" "u < 65536" by simp_all
  from Cons have IH: "\<And>b. b \<in> set (utf8_enc us None) \<Longrightarrow> 0 \<le> b \<and> b < 256"
    "\<And>h b. is_high h \<Longrightarrow> b \<in> set (utf8_enc us (Some h)) \<Longrightarrow> 0 \<le> b \<and> b < 256"
    by simp_all
  show ?case
    using IH utf8_of_unit_bytes [OF u] utf8_of_pair_bytes
    by (auto split: if_splits)
qed

lemma uint_byte_of_int: "0 \<le> b \<Longrightarrow> b < 256 \<Longrightarrow> uint (word_of_int b :: byte) = b"
  by (simp add: uint_word_of_int)

lemma utf8_string_bytes:
  assumes "well_formed s"
  shows "utf8_string (utf8_bytes s) = s"
proof -
  let ?us = "map uint s"
  have units: "\<forall>u\<in>set ?us. 0 \<le> u \<and> u < 65536"
  proof
    fix u assume "u \<in> set ?us"
    then obtain w :: code_unit where "u = uint w" by auto
    then show "0 \<le> u \<and> u < 65536" using uint_bounded [of w] by simp
  qed
  have bytes: "\<forall>b\<in>set (utf8_enc ?us None). 0 \<le> b \<and> b < 256"
    using utf8_enc_bytes [OF units] by blast
  have "map uint (map word_of_int (utf8_enc ?us None) :: byte list) = utf8_enc ?us None"
    using bytes by (simp add: map_idI uint_byte_of_int)
  moreover have "utf8_dec (utf8_enc ?us None) utf8_init = ?us"
    using utf8_dec_enc [OF units] assms by (simp add: well_formed_def)
  ultimately show ?thesis by (simp add: utf8_string_def utf8_bytes_def comp_def)
qed

lemma hex_digits_all:
  "list_all (\<lambda>n. hex_digit n \<noteq> colon \<and> unhex (hex_digit n) = Some n) [0..<16]"
  by code_simp

lemma hex_digit_neq_colon: "n < 16 \<Longrightarrow> colon \<noteq> hex_digit n"
  using hex_digits_all by (auto simp: list_all_iff)

lemma unhex_hex_digit: "n < 16 \<Longrightarrow> unhex (hex_digit n) = Some n"
  using hex_digits_all by (auto simp: list_all_iff)

lemma unat_byte_div16: "unat (b::byte) div 16 < 16"
proof -
  have "unat b < 256" using unsigned_less [of b] by simp
  then show ?thesis by simp
qed

lemma byte_recompose: "word_of_nat (16 * (unat (b::byte) div 16) + unat b mod 16) = b"
  by simp

lemma fromHex_toHex: "fromHex (toHex bs) = bs"
  by (induction bs) (simp_all add: toHex_def byte_hex_def unhex_hex_digit unat_byte_div16)

lemma colon_notin_toHex: "colon \<notin> set (toHex bs)"
  by (induction bs) (simp_all add: toHex_def byte_hex_def hex_digit_neq_colon unat_byte_div16)

lemma length_toHex: "length (toHex bs) = 2 * length bs"
  by (induction bs) (simp_all add: toHex_def byte_hex_def)

lemma js_split_no_sep: "d \<notin> set a \<Longrightarrow> js_split d a = [a]"
  by (induction a) auto

lemma js_split_append_sep: "d \<notin> set a \<Longrightarrow> js_split d (a @ d # rest) = a # js_split d rest"
  by (induction a) auto

lemma gcm_xor_length: "length (gcm_xor lib key iv bs) = length bs"
  by (simp add: gcm_xor_def)

lemma gcm_xor_nth: "i < length bs \<Longrightarrow> gcm_xor lib key iv bs ! i = bs ! i XOR gcm_keystream lib key iv i"
  by (simp add: gcm_xor_def)

lemma gcm_xor_involution: "gcm_xor lib key iv (gcm_xor lib key iv bs) = bs"
  by (rule nth_equalityI) (simp_all add: gcm_xor_length gcm_xor_nth xor.assoc)

lemma length_pbkdf2Sync: "length (pbkdf2Sync lib p s c n d) = n"
  by (simp add: pbkdf2Sync_def)

lemma length_deriveKey: "length (deriveKey lib secret salt) = 32"
  by (simp add: deriveKey_def length_pbkdf2Sync KEY_LENGTH_def)

lemma length_getAuthTag: "length (getAuthTag lib key iv ct) = 16"
  by (simp add: getAuthTag_def)

lemma randomBytes_length: "length (fst (randomBytes n r)) = n"
  by (simp add: randomBytes_def)

lemma js_split_four:
  assumes "colon \<notin> set a" "colon \<notin> set b" "colon \<notin> set c" "colon \<notin> set d"
  shows "js_split colon (a @ colon # b @ colon # c @ colon # d) = [a, b, c, d]"
  using assms by (simp add: js_split_append_sep js_split_no_sep)

lemma length_drawn_iv: "length (drawn_iv r) = 16"
  by (simp add: drawn_iv_def randomBytes_length IV_LENGTH_def)

lemma length_drawn_salt: "length (drawn_salt r) = 64"
  by (simp add: drawn_salt_def randomBytes_length SALT_LENGTH_def)

section \<open>The secret cipher: round trip\<close>

lemma encrypt_success:
  assumes "text \<noteq> []" and "truthy (ENCRYPTION_SECRET env)"
  shows "encrypt lib env r text =
           (Inr (ciphertext_of lib (the (ENCRYPTION_SECRET env)) (drawn_salt r) (drawn_iv r) text),
            rng_after r)"
proof -
  have "drawn_iv r \<noteq> []" using length_drawn_iv [of r] by auto
  then show ?thesis using assms
    by (simp add: encrypt_def encrypt_try_def createCipheriv_def length_deriveKey
        ciphertext_of_def Let_def drawn_salt_def drawn_iv_def rng_after_def split_def)
qed

lemma decrypt_ciphertext_of:
  assumes "truthy (ENCRYPTION_SECRET env)" and "iv \<noteq> []"
  shows "decrypt lib env (ciphertext_of lib (the (ENCRYPTION_SECRET env)) salt iv text)
           = Inr (utf8_string (utf8_bytes text))"
  using assms
  by (simp add: decrypt_def decrypt_try_def ciphertext_of_def Let_def js_split_four colon_notin_toHex
      fromHex_toHex createCipheriv_def length_deriveKey setAuthTag_def length_getAuthTag
      decipher_def length_toHex gcm_xor_involution)

lemma sample_secret_set: "truthy (ENCRYPTION_SECRET sample_env)"
  by (simp add: sample_env_def truthy_def js_def)

text \<open>
  C1, as the code has it.  For every non-empty plaintext \<open>s\<close>, with the master secret set
  (truthy, as the code tests it) and the same for both calls, \<^verbatim>\<open>encrypt\<close> succeeds and
  \<^verbatim>\<open>decrypt\<close> of the value it returns is \<open>s\<close> written as UTF-8 and read back: it is \<open>s\<close>
  again when \<open>s\<close> is well formed, that is, has no surrogate without its partner.  This
  holds for every source of randomness and for every choice of the PBKDF2 stream, the GCM
  key stream and the GCM tag.
\<close>

theorem encrypt_decrypt_roundtrip:
  assumes "s \<noteq> []" and "truthy (ENCRYPTION_SECRET env)"
  shows "\<exists>c r'. encrypt lib env r s = (Inr c, r') \<and>
           decrypt lib env c = Inr (utf8_string (utf8_bytes s)) \<and>
           (well_formed s \<longrightarrow> decrypt lib env c = Inr s)"
proof -
  have iv: "drawn_iv r \<noteq> []" using length_drawn_iv [of r] by auto
  have enc: "encrypt lib env r s =
      (Inr (ciphertext_of lib (the (ENCRYPTION_SECRET env)) (drawn_salt r) (drawn_iv r) s),
       rng_after r)"
    using assms by (rule encrypt_success)
  have dec: "decrypt lib env
      (ciphertext_of lib (the (ENCRYPTION_SECRET env)) (drawn_salt r) (drawn_iv r) s)
        = Inr (utf8_string (utf8_bytes s))"
    using assms(2) iv by (rule decrypt_ciphertext_of)
  have "utf8_string (utf8_bytes s) = s" if "well_formed s"
    using that by (rule utf8_string_bytes)
  with enc dec show ?thesis by auto
qed

lemma sample_key_well_formed: "well_formed (js ''AIza-sample-key'')"
  by code_simp

theorem encrypt_decrypt_roundtrip_witness:
  "\<exists>c r'. encrypt sample_crypto sample_env sample_rng (js ''AIza-sample-key'') = (Inr c, r') \<and>
          decrypt sample_crypto sample_env c = Inr (js ''AIza-sample-key'')"
proof -
  have "js ''AIza-sample-key'' \<noteq> []" by (simp add: js_def)
  from encrypt_decrypt_roundtrip [OF this sample_secret_set, of sample_crypto sample_rng]
    sample_key_well_formed
  show ?thesis by blast
qed

text \<open>
  C1 as stated fails on the code for a string that is not well formed: the string of the
  one code unit U+D800, a surrogate without its partner, is encrypted, and what
  \<^verbatim>\<open>decrypt\<close> returns for the result is the string of the one code unit U+FFFD.
\<close>

theorem unpaired_surrogate_counterexample:
  "fst (encrypt sample_crypto sample_env sample_rng [0xD800]) = Inr lone_surrogate_ciphertext \<and>
   decrypt sample_crypto sample_env lone_surrogate_ciphertext = Inr [0xFFFD] \<and>
   [0xFFFD] \<noteq> [0xD800 :: code_unit]"
  by code_simp


section \<open>The secret cipher: what a successful call produces\<close>

lemma map_shift_upt: "map (\<lambda>i. r (i + n)) [0..<m] = map r [n..<n + m]"
proof -
  have "map r [n..<n + m] = map r (map (\<lambda>i. i + n) [0..<m])"
    by (simp add: map_add_upt add.commute)
  then show ?thesis by (simp add: comp_def)
qed

lemma drawn_salt_eq: "drawn_salt r = map r [0..<SALT_LENGTH]"
  by (simp add: drawn_salt_def randomBytes_def)

lemma drawn_iv_eq: "drawn_iv r = map r [SALT_LENGTH..<SALT_LENGTH + IV_LENGTH]"
  by (simp add: drawn_iv_def randomBytes_def map_shift_upt)

lemma rng_after_eq: "rng_after r = (\<lambda>i. r (i + (SALT_LENGTH + IV_LENGTH)))"
  by (simp add: rng_after_def randomBytes_def add.assoc add.commute add.left_commute)

lemma encrypt_Inr_D:
  assumes "encrypt lib env r text = (Inr c, r')"
  shows "text \<noteq> [] \<and> truthy (ENCRYPTION_SECRET env)"
  using assms
  by (auto simp: encrypt_def encrypt_try_def split: if_splits prod.splits sum.splits)

lemma encrypt_Inr_eq:
  assumes "encrypt lib env r text = (Inr c, r')"
  shows "c = ciphertext_of lib (the (ENCRYPTION_SECRET env)) (drawn_salt r) (drawn_iv r) text"
    and "r' = rng_after r"
  using assms encrypt_Inr_D [OF assms] by (simp_all add: encrypt_success)

lemma js_split_ciphertext_of:
  "js_split colon (ciphertext_of lib secret salt iv text) =
     [toHex salt, toHex iv,
      toHex (getAuthTag lib (deriveKey lib secret salt) iv
               (gcm_xor lib (deriveKey lib secret salt) iv (utf8_bytes text))),
      toHex (gcm_xor lib (deriveKey lib secret salt) iv (utf8_bytes text))]"
  by (simp add: ciphertext_of_def Let_def js_split_four colon_notin_toHex)

lemma encrypt_sample:
  "encrypt sample_crypto sample_env sample_rng (js ''key'') = (Inr sample_ciphertext, rng_after sample_rng)"
proof -
  have "fst (encrypt sample_crypto sample_env sample_rng (js ''key'')) = Inr sample_ciphertext"
    by code_simp
  moreover have "snd (encrypt sample_crypto sample_env sample_rng (js ''key'')) = rng_after sample_rng"
    by (simp add: encrypt_success sample_secret_set js_def)
  ultimately show ?thesis by (simp add: prod_eq_iff)
qed

text \<open>
  C4.  Every successful call of \<^verbatim>\<open>encrypt\<close> takes its salt and its nonce from the source
  of randomness within that call: the salt is the next 64 bytes (at least 32), the nonce
  the 16 bytes after them, and the source is left advanced past both, so the next call
  draws other bytes.  The key is PBKDF2 of the master secret and that salt with 100000
  iterations (at least 100000) and has 32 bytes, 256 bits.  The value returned is the hex
  encodings of salt, nonce, authentication tag and ciphertext joined by colons; splitting
  it at the colons gives back exactly these four, and no hex encoding contains a colon.
\<close>

theorem encrypt_output_format:
  assumes "encrypt lib env r text = (Inr c, r')"
  shows "\<exists>salt iv key ct tag.
           salt = map r [0..<SALT_LENGTH] \<and> 32 \<le> length salt \<and>
           iv = map r [SALT_LENGTH..<SALT_LENGTH + IV_LENGTH] \<and> length iv = 16 \<and>
           r' = (\<lambda>i. r (i + (SALT_LENGTH + IV_LENGTH))) \<and>
           key = pbkdf2Sync lib (the (ENCRYPTION_SECRET env)) salt ITERATIONS KEY_LENGTH ''sha256'' \<and>
           100000 \<le> ITERATIONS \<and> 8 * length key = 256 \<and>
           ct = gcm_xor lib key iv (utf8_bytes text) \<and>
           tag = getAuthTag lib key iv ct \<and>
           c = toHex salt @ [colon] @ toHex iv @ [colon] @ toHex tag @ [colon] @ toHex ct \<and>
           js_split colon c = [toHex salt, toHex iv, toHex tag, toHex ct] \<and>
           (\<forall>bs. colon \<notin> set (toHex bs))"
proof -
  let ?secret = "the (ENCRYPTION_SECRET env)"
  let ?salt = "drawn_salt r" and ?iv = "drawn_iv r"
  let ?key = "deriveKey lib ?secret ?salt"
  let ?ct = "gcm_xor lib ?key ?iv (utf8_bytes text)"
  from assms have c: "c = ciphertext_of lib ?secret ?salt ?iv text" and r': "r' = rng_after r"
    by (rule encrypt_Inr_eq)+
  have "?salt = map r [0..<SALT_LENGTH]" by (rule drawn_salt_eq)
  moreover have "32 \<le> length ?salt" by (simp add: length_drawn_salt)
  moreover have "?iv = map r [SALT_LENGTH..<SALT_LENGTH + IV_LENGTH]" by (rule drawn_iv_eq)
  moreover have "length ?iv = 16" by (rule length_drawn_iv)
  moreover have "r' = (\<lambda>i. r (i + (SALT_LENGTH + IV_LENGTH)))" using r' by (simp add: rng_after_eq)
  moreover have "?key = pbkdf2Sync lib ?secret ?salt ITERATIONS KEY_LENGTH ''sha256''"
    by (simp add: deriveKey_def)
  moreover have "100000 \<le> ITERATIONS" by (simp add: ITERATIONS_def)
  moreover have "8 * length ?key = 256" by (simp add: length_deriveKey)
  moreover have "c = toHex ?salt @ [colon] @ toHex ?iv @ [colon] @
      toHex (getAuthTag lib ?key ?iv ?ct) @ [colon] @ toHex ?ct"
    using c by (simp add: ciphertext_of_def Let_def)
  moreover have "js_split colon c =
      [toHex ?salt, toHex ?iv, toHex (getAuthTag lib ?key ?iv ?ct), toHex ?ct]"
    using c by (simp add: js_split_ciphertext_of)
  moreover have "\<forall>bs. colon \<notin> set (toHex bs)" by (simp add: colon_notin_toHex)
  ultimately show ?thesis by blast
qed

theorem encrypt_output_format_witness:
  "encrypt sample_crypto sample_env sample_rng (js ''key'') = (Inr sample_ciphertext, rng_after sample_rng) \<and>
   (\<exists>salt iv key ct tag.
      salt = map sample_rng [0..<SALT_LENGTH] \<and> 32 \<le> length salt \<and>
      iv = map sample_rng [SALT_LENGTH..<SALT_LENGTH + IV_LENGTH] \<and> length iv = 16 \<and>
      rng_after sample_rng = (\<lambda>i. sample_rng (i + (SALT_LENGTH + IV_LENGTH))) \<and>
      key = pbkdf2Sync sample_crypto (the (ENCRYPTION_SECRET sample_env)) salt ITERATIONS
              KEY_LENGTH ''sha256'' \<and>
      100000 \<le> ITERATIONS \<and> 8 * length key = 256 \<and>
      ct = gcm_xor sample_crypto key iv (utf8_bytes (js ''key'')) \<and>
      tag = getAuthTag sample_crypto key iv ct \<and>
      sample_ciphertext = toHex salt @ [colon] @ toHex iv @ [colon] @ toHex tag @ [colon] @ toHex ct \<and>
      js_split colon sample_ciphertext = [toHex salt, toHex iv, toHex tag, toHex ct] \<and>
      (\<forall>bs. colon \<notin> set (toHex bs)))"
  using encrypt_sample encrypt_output_format [OF encrypt_sample] by blast


section \<open>The credential handlers\<close>

lemma not_invalid_apiKey_D:
  "\<not> invalid_apiKey k \<Longrightarrow> \<exists>s. k = Some s \<and> s \<noteq> [] \<and> \<not> js_blank s"
  by (cases k) (auto simp: invalid_apiKey_def js_blank_def)

lemma getAvailableModels_gemini:
  "getAvailableModels ''gemini'' =
     [''gemini-2.5-flash-lite'', ''gemini-2.5-flash-preview-09-2025'',
      ''gemini-2.5-flash-lite-preview-09-2025'', ''gemini-2.0-flash'', ''gemini-2.0-flash-lite'']"
  by (simp add: getAvailableModels_def AVAILABLE_MODELS_def)


lemma sample_users_u1: "sample_users ''u1'' = Some new_user"
  by (simp add: sample_users_def)

lemma sample_users_u2: "sample_users ''u2'' = Some legacy_user"
  by (simp add: sample_users_def)

lemma deleteAIConfig_Some:
  assumes "db uid = Some u"
  shows "deleteAIConfig uid db =
     (\<lparr>status = 200, body = JObj [(''success'', JBool True),
         (''message'', JStr ''AI configuration removed successfully''),
         (''data'', JObj [(''hasApiKey'', JBool False)])]\<rparr>,
      db(uid \<mapsto> \<lparr>aiProvider = Some ''gemini'', aiModel = Some ''gemini-2.5-flash-lite'',
                   aiApiKey = None, geminiApiKey = None\<rparr>))"
  using assms by (cases u) (simp add: deleteAIConfig_def)

text \<open>
  C9.  For every user and every state of the credential, \<^verbatim>\<open>deleteAIConfig\<close> answers 200,
  clears the current and the legacy secret and sets provider and model to
  \<^verbatim>\<open>gemini\<close> and \<^verbatim>\<open>gemini-2.5-flash-lite\<close>, leaving the other users as they were.
  Applied once more, to the cleared credential, it gives the same answer and the same
  state.
\<close>

theorem deleteAIConfig_clears_and_is_idempotent:
  assumes "db uid = Some u"
  shows "\<exists>res db'. deleteAIConfig uid db = (res, db') \<and> status res = 200 \<and>
           db' uid = Some \<lparr>aiProvider = Some ''gemini'', aiModel = Some ''gemini-2.5-flash-lite'',
                            aiApiKey = None, geminiApiKey = None\<rparr> \<and>
           (\<forall>v. v \<noteq> uid \<longrightarrow> db' v = db v) \<and>
           deleteAIConfig uid db' = (res, db')"
proof -
  define cleared where "cleared = \<lparr>aiProvider = Some ''gemini'',
      aiModel = Some ''gemini-2.5-flash-lite'', aiApiKey = None, geminiApiKey = None\<rparr>"
  define res where "res = \<lparr>status = 200, body = JObj [(''success'', JBool True),
         (''message'', JStr ''AI configuration removed successfully''),
         (''data'', JObj [(''hasApiKey'', JBool False)])]\<rparr>"
  define db' where "db' = db(uid \<mapsto> cleared)"
  have first: "deleteAIConfig uid db = (res, db')"
    using assms by (simp add: deleteAIConfig_Some res_def db'_def cleared_def)
  have at: "db' uid = Some cleared" by (simp add: db'_def)
  have "deleteAIConfig uid db' = (res, db'(uid \<mapsto> cleared))"
    using at by (simp add: deleteAIConfig_Some res_def cleared_def)
  then have second: "deleteAIConfig uid db' = (res, db')" by (simp add: db'_def)
  have st: "status res = 200" by (simp add: res_def)
  have frame: "\<forall>v. v \<noteq> uid \<longrightarrow> db' v = db v" by (simp add: db'_def)
  from first st at frame second show ?thesis unfolding cleared_def by blast
qed

theorem deleteAIConfig_clears_and_is_idempotent_witness:
  "\<exists>res db'. deleteAIConfig ''u2'' sample_users = (res, db') \<and> status res = 200 \<and>
     db' ''u2'' = Some new_user \<and> deleteAIConfig ''u2'' db' = (res, db')"
  using deleteAIConfig_clears_and_is_idempotent [of sample_users "''u2''" legacy_user]
    sample_users_u2
  unfolding new_user_def by blast

lemma setApiKey_success:
  assumes "\<not> invalid_apiKey (body_apiKey req)"
    and "validateApiKey api (the (body_apiKey req)) ''gemini'' ''gemini-2.5-flash-lite'' = Inr ok"
    and "truthy (ENCRYPTION_SECRET env)"
    and "db uid = Some u"
  shows "setApiKey lib env api uid req db r =
     (\<lparr>status = 200, body = JObj [(''success'', JBool True),
         (''message'', JStr ''API key saved successfully''),
         (''data'', JObj [(''hasApiKey'', JBool True)])]\<rparr>,
      db(uid \<mapsto> u\<lparr>aiApiKey := Some (ciphertext_of lib (the (ENCRYPTION_SECRET env))
                                       (drawn_salt r) (drawn_iv r) (the (body_apiKey req))),
                   aiProvider := Some ''gemini'',
                   aiModel := Some ''gemini-2.5-flash-lite'',
                   geminiApiKey := Some (ciphertext_of lib (the (ENCRYPTION_SECRET env))
                                       (drawn_salt r) (drawn_iv r) (the (body_apiKey req)))\<rparr>),
      rng_after r)"
proof -
  from assms(1) obtain s where s: "body_apiKey req = Some s" "s \<noteq> []"
    using not_invalid_apiKey_D by blast
  show ?thesis using assms s
    by (simp add: setApiKey_def encrypt_success)
qed

lemma setApiKey_200_D:
  assumes "setApiKey lib env api uid req db r = (res, db', r')" and "status res = 200"
  shows "\<exists>u c. db uid = Some u \<and> encrypt lib env r (the (body_apiKey req)) = (Inr c, r') \<and>
           db' = db(uid \<mapsto> u\<lparr>aiApiKey := Some c, aiProvider := Some ''gemini'',
                     aiModel := Some ''gemini-2.5-flash-lite'', geminiApiKey := Some c\<rparr>)"
  using assms
  by (auto simp: setApiKey_def Let_def
      split: if_splits sum.splits prod.splits option.splits js_error.splits)

text \<open>
  C10.  Every call of the legacy setter \<^verbatim>\<open>setApiKey\<close> that answers 200 has encrypted
  the key of the request once and stored that one ciphertext in the current and in the
  legacy secret field of the user, with provider \<^verbatim>\<open>gemini\<close> and model
  \<^verbatim>\<open>gemini-2.5-flash-lite\<close>; the two fields hold the same value.
\<close>

theorem setApiKey_writes_both_fields:
  assumes "setApiKey lib env api uid req db r = (res, db', r')" and "status res = 200"
  shows "\<exists>u c u'. db uid = Some u \<and>
           encrypt lib env r (the (body_apiKey req)) = (Inr c, r') \<and>
           db' = db(uid \<mapsto> u') \<and>
           aiApiKey u' = Some c \<and> geminiApiKey u' = Some c \<and>
           aiProvider u' = Some ''gemini'' \<and> aiModel u' = Some ''gemini-2.5-flash-lite''"
proof -
  from setApiKey_200_D [OF assms] obtain u c where
    u: "db uid = Some u" and enc: "encrypt lib env r (the (body_apiKey req)) = (Inr c, r')" and
    db': "db' = db(uid \<mapsto> u\<lparr>aiApiKey := Some c, aiProvider := Some ''gemini'',
                     aiModel := Some ''gemini-2.5-flash-lite'', geminiApiKey := Some c\<rparr>)"
    by blast
  let ?u' = "u\<lparr>aiApiKey := Some c, aiProvider := Some ''gemini'',
                aiModel := Some ''gemini-2.5-flash-lite'', geminiApiKey := Some c\<rparr>"
  have "aiApiKey ?u' = Some c" "geminiApiKey ?u' = Some c"
    "aiProvider ?u' = Some ''gemini''" "aiModel ?u' = Some ''gemini-2.5-flash-lite''"
    by simp_all
  with u enc db' show ?thesis by blast
qed

lemma validate_sample_good:
  "validateApiKey sample_services (js ''good-key'') ''gemini'' ''gemini-2.5-flash-lite'' = Inr True"
  by code_simp

lemma validate_sample_bad:
  "validateApiKey sample_services (js ''bad-key'') ''gemini'' ''gemini-2.5-flash-lite'' =
     Inl (Error ''Invalid gemini API key. Please check your API key.'')"
  by code_simp

lemma good_key_valid: "\<not> invalid_apiKey (Some (js ''good-key''))"
  by code_simp

lemma bad_key_valid: "\<not> invalid_apiKey (Some (js ''bad-key''))"
  by code_simp

theorem setApiKey_writes_both_fields_witness:
  "\<exists>res db' r' c u'.
     setApiKey sample_crypto sample_env sample_services ''u1''
       \<lparr>body_apiKey = Some (js ''good-key''), body_provider = None, body_model = None\<rparr>
       sample_users sample_rng = (res, db', r') \<and>
     status res = 200 \<and>
     encrypt sample_crypto sample_env sample_rng (js ''good-key'') = (Inr c, r') \<and>
     db' = sample_users(''u1'' \<mapsto> u') \<and>
     aiApiKey u' = Some c \<and> geminiApiKey u' = Some c \<and>
     aiProvider u' = Some ''gemini'' \<and> aiModel u' = Some ''gemini-2.5-flash-lite''"
proof -
  let ?req = "\<lparr>body_apiKey = Some (js ''good-key''), body_provider = None, body_model = None\<rparr>"
  obtain res db' r' where call:
    "setApiKey sample_crypto sample_env sample_services ''u1'' ?req sample_users sample_rng
       = (res, db', r')"
    by (metis prod_cases3)
  have "status res = 200"
    using call setApiKey_success [of ?req sample_services True sample_env sample_users "''u1''"
        new_user sample_crypto sample_rng]
    by (auto simp: good_key_valid validate_sample_good sample_secret_set sample_users_u1)
  with call setApiKey_writes_both_fields [OF call] show ?thesis by force
qed

lemma getAIConfig_Some:
  assumes "db uid = Some u"
  shows "getAIConfig uid db =
     \<lparr>status = 200, body = JObj [(''success'', JBool True),
        (''data'', JObj
           [(''hasApiKey'', JBool (truthy (aiApiKey u) \<or> truthy (geminiApiKey u))),
            (''provider'', JStr (if truthy (aiProvider u) then the (aiProvider u) else ''gemini'')),
            (''model'', JStr (if truthy (aiModel u) then the (aiModel u)
                              else ''gemini-2.5-flash-lite'')),
            (''availableModels'', JObj
               [(''gemini'', JArr (map JStr (getAvailableModels ''gemini''))),
                (''grok'', JArr (map JStr (getAvailableModels ''grok'')))])])]\<rparr>"
  using assms by (simp add: getAIConfig_def)


text \<open>
  C7.  For every user and every state of the credential, \<^verbatim>\<open>getAIConfig\<close> answers 200
  with \<open>hasApiKey\<close> true exactly when the current or the legacy secret is present.  It
  reports the stored provider and model, and \<^verbatim>\<open>gemini\<close> and the model that is the
  default for \<^verbatim>\<open>gemini\<close>, \<^verbatim>\<open>gemini-2.5-flash-lite\<close>, where the field is absent.
  The answer is the same for any two contents of the secret fields that agree on whether
  a secret is present: no part of a secret, encrypted or decrypted, is in it.
\<close>

theorem getAIConfig_reports_status_only:
  assumes "db uid = Some u"
  shows "\<exists>d. status (getAIConfig uid db) = 200 \<and>
           json_get ''data'' (body (getAIConfig uid db)) = Some d \<and>
           json_get ''hasApiKey'' d = Some (JBool (truthy (aiApiKey u) \<or> truthy (geminiApiKey u))) \<and>
           json_get ''provider'' d =
             Some (JStr (if truthy (aiProvider u) then the (aiProvider u) else ''gemini'')) \<and>
           json_get ''model'' d =
             Some (JStr (if truthy (aiModel u) then the (aiModel u)
                         else selectedModel \<lparr>body_apiKey = None, body_provider = Some ''gemini'',
                                               body_model = None\<rparr>)) \<and>
           selectedModel \<lparr>body_apiKey = None, body_provider = Some ''gemini'', body_model = None\<rparr>
             = ''gemini-2.5-flash-lite'' \<and>
           (\<forall>k1 k2. (truthy k1 \<or> truthy k2) = (truthy (aiApiKey u) \<or> truthy (geminiApiKey u)) \<longrightarrow>
              getAIConfig uid (db(uid \<mapsto> u\<lparr>aiApiKey := k1, geminiApiKey := k2\<rparr>))
                = getAIConfig uid db)"
proof -
  have dflt: "selectedModel \<lparr>body_apiKey = None, body_provider = Some ''gemini'', body_model = None\<rparr>
      = ''gemini-2.5-flash-lite''"
    by (simp add: selectedModel_def request_provider_def truthy_def)
  have indep: "\<forall>k1 k2. (truthy k1 \<or> truthy k2) = (truthy (aiApiKey u) \<or> truthy (geminiApiKey u)) \<longrightarrow>
      getAIConfig uid (db(uid \<mapsto> u\<lparr>aiApiKey := k1, geminiApiKey := k2\<rparr>)) = getAIConfig uid db"
    using assms by (simp add: getAIConfig_def)
  show ?thesis
    using assms dflt indep by (simp add: getAIConfig_Some json_get_def)
qed

theorem getAIConfig_reports_status_only_witness:
  "\<exists>d. status (getAIConfig ''u2'' sample_users) = 200 \<and>
     json_get ''data'' (body (getAIConfig ''u2'' sample_users)) = Some d \<and>
     json_get ''hasApiKey'' d = Some (JBool True) \<and>
     json_get ''provider'' d = Some (JStr ''gemini'') \<and>
     json_get ''model'' d = Some (JStr ''gemini-2.5-flash-lite'') \<and>
     getAIConfig ''u2'' (sample_users(''u2'' \<mapsto> legacy_user\<lparr>aiApiKey := Some (js ''x''), geminiApiKey := None\<rparr>))
       = getAIConfig ''u2'' sample_users"
proof -
  from getAIConfig_reports_status_only [of sample_users "''u2''" legacy_user] sample_users_u2
  obtain d where d: "status (getAIConfig ''u2'' sample_users) = 200"
    "json_get ''data'' (body (getAIConfig ''u2'' sample_users)) = Some d"
    "json_get ''hasApiKey'' d = Some (JBool (truthy (aiApiKey legacy_user) \<or> truthy (geminiApiKey legacy_user)))"
    "json_get ''provider'' d =
       Some (JStr (if truthy (aiProvider legacy_user) then the (aiProvider legacy_user) else ''gemini''))"
    "json_get ''model'' d =
       Some (JStr (if truthy (aiModel legacy_user) then the (aiModel legacy_user)
                   else selectedModel \<lparr>body_apiKey = None, body_provider = Some ''gemini'',
                                         body_model = None\<rparr>))"
    "selectedModel \<lparr>body_apiKey = None, body_provider = Some ''gemini'', body_model = None\<rparr>
       = ''gemini-2.5-flash-lite''"
    "\<forall>k1 k2. (truthy k1 \<or> truthy k2) = (truthy (aiApiKey legacy_user) \<or> truthy (geminiApiKey legacy_user)) \<longrightarrow>
       getAIConfig ''u2'' (sample_users(''u2'' \<mapsto> legacy_user\<lparr>aiApiKey := k1, geminiApiKey := k2\<rparr>))
         = getAIConfig ''u2'' sample_users"
    by blast
  have t: "truthy (geminiApiKey legacy_user)" "\<not> truthy (aiApiKey legacy_user)"
    "\<not> truthy (aiProvider legacy_user)" "\<not> truthy (aiModel legacy_user)"
    by (simp_all add: legacy_user_def truthy_def sample_ciphertext_def js_def)
  have "(truthy (Some (js ''x'')) \<or> truthy None) = (truthy (aiApiKey legacy_user) \<or> truthy (geminiApiKey legacy_user))"
    using t by (simp add: truthy_def js_def)
  with d(7) have "getAIConfig ''u2'' (sample_users(''u2'' \<mapsto> legacy_user\<lparr>aiApiKey := Some (js ''x''), geminiApiKey := None\<rparr>))
         = getAIConfig ''u2'' sample_users" by blast
  with d t show ?thesis by auto
qed


lemma setAIConfig_rejected:
  assumes "\<not> invalid_apiKey (body_apiKey req)"
    and "request_provider req \<in> {''gemini'', ''grok''}"
    and "selectedModel req \<in> set (getAvailableModels (request_provider req))"
    and "validateApiKey api (the (body_apiKey req)) (request_provider req) (selectedModel req)
           = Inl (Error msg)"
  shows "setAIConfig lib env api uid req db r =
     (\<lparr>status = 400, body = JObj [(''success'', JBool False), (''message'', JStr msg)]\<rparr>, db, r)"
  using assms by (auto simp: setAIConfig_def Let_def)

lemma setAIConfig_unsupported_model:
  assumes "\<not> invalid_apiKey (body_apiKey req)"
    and "request_provider req \<in> {''gemini'', ''grok''}"
    and "selectedModel req \<notin> set (getAvailableModels (request_provider req))"
  shows "setAIConfig lib env api uid req db r =
     (\<lparr>status = 400, body = JObj [(''success'', JBool False),
         (''message'', JStr (''Model '' @ [CHR 0x22] @ selectedModel req @ [CHR 0x22] @
            '' is not available for provider '' @ [CHR 0x22] @ request_provider req @ [CHR 0x22])),
         (''data'', JObj [(''availableModels'',
            JArr (map JStr (getAvailableModels (request_provider req))))])]\<rparr>, db, r)"
  using assms by (auto simp: setAIConfig_def Let_def)

lemma setAIConfig_not_200_unchanged:
  assumes "setAIConfig lib env api uid req db r = (res, db', r')" and "status res \<noteq> 200"
  shows "db' = db"
  using assms
  by (auto simp: setAIConfig_def Let_def
      split: if_splits sum.splits prod.splits option.splits js_error.splits)

lemma setAIConfig_early_400:
  assumes "invalid_apiKey (body_apiKey req) \<or> request_provider req \<notin> {''gemini'', ''grok''}"
  shows "\<exists>res. setAIConfig lib env api uid req db r = (res, db, r) \<and> status res = 400"
  using assms by (auto simp: setAIConfig_def Let_def)

text \<open>
  C5.  Whenever the validator rejects the secret of a \<^verbatim>\<open>setAIConfig\<close> call (for the
  provider and the model the call has selected), the call answers 400 and stores nothing:
  the collection of users, and with it the provider, model, current and legacy secret of
  the user, is the one from before, no randomness has been drawn, and \<^verbatim>\<open>getAIConfig\<close>
  answers as it did before.  When the call has reached the validator (the key is not
  blank, the provider is known, the model is supported) the answer carries the
  validator's own message.
\<close>

theorem setAIConfig_rejected_key_not_persisted:
  assumes "validateApiKey api (the (body_apiKey req)) (request_provider req) (selectedModel req)
             = Inl (Error msg)"
  shows "\<exists>res. setAIConfig lib env api uid req db r = (res, db, r) \<and> status res = 400 \<and>
           getAIConfig uid (fst (snd (setAIConfig lib env api uid req db r))) = getAIConfig uid db \<and>
           (\<not> invalid_apiKey (body_apiKey req) \<and> request_provider req \<in> {''gemini'', ''grok''} \<and>
            selectedModel req \<in> set (getAvailableModels (request_provider req)) \<longrightarrow>
              body res = JObj [(''success'', JBool False), (''message'', JStr msg)])"
proof (cases "invalid_apiKey (body_apiKey req) \<or> request_provider req \<notin> {''gemini'', ''grok''}")
  case True
  then obtain res where "setAIConfig lib env api uid req db r = (res, db, r)" "status res = 400"
    using setAIConfig_early_400 by blast
  with True show ?thesis by auto
next
  case False
  then have ok: "\<not> invalid_apiKey (body_apiKey req)" "request_provider req \<in> {''gemini'', ''grok''}"
    by auto
  show ?thesis
  proof (cases "selectedModel req \<in> set (getAvailableModels (request_provider req))")
    case True
    with ok assms show ?thesis by (simp add: setAIConfig_rejected)
  next
    case False
    with ok show ?thesis by (simp add: setAIConfig_unsupported_model)
  qed
qed

theorem setAIConfig_rejected_key_not_persisted_witness:
  "\<exists>res. setAIConfig sample_crypto sample_env sample_services ''u1''
            \<lparr>body_apiKey = Some (js ''bad-key''), body_provider = Some ''gemini'', body_model = None\<rparr>
            sample_users sample_rng = (res, sample_users, sample_rng) \<and>
         status res = 400 \<and>
         body res = JObj [(''success'', JBool False),
           (''message'', JStr ''Invalid gemini API key. Please check your API key.'')]"
proof -
  let ?req = "\<lparr>body_apiKey = Some (js ''bad-key''), body_provider = Some ''gemini'', body_model = None\<rparr>"
  have p: "request_provider ?req = ''gemini''" by (simp add: request_provider_def)
  have m: "selectedModel ?req = ''gemini-2.5-flash-lite''"
    by (simp add: selectedModel_def request_provider_def truthy_def)
  have rej: "validateApiKey sample_services (the (body_apiKey ?req)) (request_provider ?req)
      (selectedModel ?req) = Inl (Error ''Invalid gemini API key. Please check your API key.'')"
    by (simp add: p m validate_sample_bad)
  have reach: "\<not> invalid_apiKey (body_apiKey ?req) \<and> request_provider ?req \<in> {''gemini'', ''grok''} \<and>
            selectedModel ?req \<in> set (getAvailableModels (request_provider ?req))"
    by (simp add: p m bad_key_valid getAvailableModels_gemini)
  from setAIConfig_rejected_key_not_persisted [OF rej, of sample_crypto sample_env "''u1''"
      sample_users sample_rng] reach
  show ?thesis by blast
qed





section \<open>The secret cipher: changed and malformed inputs\<close>

lemma unhex_less_16: "unhex c = Some v \<Longrightarrow> v < 16"
  by (auto simp: unhex_def Let_def split: if_splits)

lemma unhex_colon: "unhex colon = None"
  by (simp add: unhex_def)

lemma unat_byte_of_nibbles:
  assumes "h < 16" "l < 16"
  shows "unat (word_of_nat (16 * h + l) :: byte) = 16 * h + l"
proof -
  from assms have "16 * h + l < 256" by simp
  then have "(16 * h + l) mod 2 ^ LENGTH(8) = 16 * h + l" by simp
  then show ?thesis by (simp only: unat_of_nat)
qed

lemma byte_of_nibbles_eq_iff:
  assumes "h < 16" "l < 16"
  shows "(word_of_nat (16 * h + l) = (b::byte)) = (h = unat b div 16 \<and> l = unat b mod 16)"
proof
  assume "word_of_nat (16 * h + l) = b"
  then have "unat b = 16 * h + l" using unat_byte_of_nibbles [OF assms] by simp
  with assms show "h = unat b div 16 \<and> l = unat b mod 16" by simp
next
  assume "h = unat b div 16 \<and> l = unat b mod 16"
  then show "word_of_nat (16 * h + l) = b" using byte_recompose [of b] by simp
qed

lemma toHex_Cons:
  "toHex (b # bs) = hex_digit (unat b div 16) # hex_digit (unat b mod 16) # toHex bs"
  by (simp add: toHex_def byte_hex_def)

text \<open>
  Replacing one character of a hex encoding by a hex digit of another value replaces one
  byte of what it decodes to by another byte.
\<close>

lemma fromHex_toHex_update:
  assumes "j < length (toHex bs)" and "unhex x = Some v" and "unhex x \<noteq> unhex (toHex bs ! j)"
  shows "\<exists>b'. b' \<noteq> bs ! (j div 2) \<and> fromHex ((toHex bs)[j := x]) = bs[j div 2 := b']"
  using assms
proof (induction bs arbitrary: j)
  case Nil
  then show ?case by (simp add: toHex_def)
next
  case (Cons b bs)
  have hi: "unhex (hex_digit (unat b div 16)) = Some (unat b div 16)"
    by (simp add: unhex_hex_digit unat_byte_div16)
  have lo: "unhex (hex_digit (unat b mod 16)) = Some (unat b mod 16)"
    by (simp add: unhex_hex_digit)
  have v: "v < 16" using Cons.prems(2) by (rule unhex_less_16)
  show ?case
  proof (cases j)
    case 0
    with Cons.prems hi have ne: "v \<noteq> unat b div 16" by (simp add: toHex_Cons)
    let ?b' = "word_of_nat (16 * v + unat b mod 16) :: byte"
    have "?b' \<noteq> b" using ne v by (simp add: byte_of_nibbles_eq_iff del: of_nat_add of_nat_mult)
    moreover have "fromHex ((toHex (b # bs))[j := x]) = ?b' # bs"
      using 0 Cons.prems(2) lo
      by (simp add: toHex_Cons fromHex_toHex del: of_nat_add of_nat_mult)
    ultimately show ?thesis using 0 by auto
  next
    case (Suc k)
    show ?thesis
    proof (cases k)
      case 0
      with Suc Cons.prems lo have ne: "v \<noteq> unat b mod 16" by (simp add: toHex_Cons)
      let ?b' = "word_of_nat (16 * (unat b div 16) + v) :: byte"
      have "?b' \<noteq> b"
        using ne v by (simp add: byte_of_nibbles_eq_iff unat_byte_div16 del: of_nat_add of_nat_mult)
      moreover have "fromHex ((toHex (b # bs))[j := x]) = ?b' # bs"
        using 0 Suc Cons.prems(2) hi
        by (simp add: toHex_Cons fromHex_toHex del: of_nat_add of_nat_mult)
      ultimately show ?thesis using 0 Suc by auto
    next
      case (Suc m)
      with \<open>j = Suc k\<close> Cons.prems have "m < length (toHex bs)" "unhex x \<noteq> unhex (toHex bs ! m)"
        by (simp_all add: toHex_Cons)
      from Cons.IH [OF this(1) Cons.prems(2) this(2)] obtain b' where
        b': "b' \<noteq> bs ! (m div 2)" "fromHex ((toHex bs)[m := x]) = bs[m div 2 := b']"
        by blast
      have jd: "j div 2 = Suc (m div 2)" using Suc \<open>j = Suc k\<close> by simp
      have "fromHex ((toHex (b # bs))[j := x]) = (b # bs)[j div 2 := b']"
        using b'(2) Suc \<open>j = Suc k\<close> hi lo jd by (simp add: toHex_Cons)
      moreover have "b' \<noteq> (b # bs) ! (j div 2)" using b'(1) jd by simp
      ultimately show ?thesis by blast
    qed
  qed
qed

text \<open>Replacing it by a hex digit of the same value changes nothing in what it decodes to.\<close>

lemma fromHex_toHex_update_same:
  assumes "j < length (toHex bs)" and "unhex x = unhex (toHex bs ! j)"
  shows "fromHex ((toHex bs)[j := x]) = bs"
  using assms
proof (induction bs arbitrary: j)
  case Nil
  then show ?case by (simp add: toHex_def)
next
  case (Cons b bs)
  have hi: "unhex (hex_digit (unat b div 16)) = Some (unat b div 16)"
    by (simp add: unhex_hex_digit unat_byte_div16)
  have lo: "unhex (hex_digit (unat b mod 16)) = Some (unat b mod 16)"
    by (simp add: unhex_hex_digit)
  show ?case
  proof (cases j)
    case 0
    with Cons.prems hi have "unhex x = Some (unat b div 16)" by (simp add: toHex_Cons)
    then show ?thesis using 0 lo by (simp add: toHex_Cons fromHex_toHex)
  next
    case (Suc k)
    show ?thesis
    proof (cases k)
      case 0
      with Suc Cons.prems lo have "unhex x = Some (unat b mod 16)" by (simp add: toHex_Cons)
      then show ?thesis using 0 Suc hi by (simp add: toHex_Cons fromHex_toHex)
    next
      case (Suc m)
      with \<open>j = Suc k\<close> Cons.prems have "m < length (toHex bs)" "unhex x = unhex (toHex bs ! m)"
        by (simp_all add: toHex_Cons)
      then have "fromHex ((toHex bs)[m := x]) = bs" by (rule Cons.IH)
      then show ?thesis using Suc \<open>j = Suc k\<close> hi lo by (simp add: toHex_Cons)
    qed
  qed
qed

lemma list_update_neq:
  assumes "i < length xs" "y \<noteq> xs ! i"
  shows "xs[i := y] \<noteq> xs"
  using assms by (metis nth_list_update_eq)

lemma colon_notin_update:
  assumes "unhex x \<noteq> None"
  shows "colon \<notin> set ((toHex bs)[j := x])"
proof -
  have "x \<noteq> colon" using assms unhex_colon by auto
  moreover have "set ((toHex bs)[j := x]) \<subseteq> insert x (set (toHex bs))"
    by (rule set_update_subset_insert)
  ultimately show ?thesis using colon_notin_toHex [of bs] by auto
qed

lemma decrypt_error_generic: "decrypt lib env y = Inl e \<Longrightarrow> e = Error ''Failed to decrypt data''"
  by (auto simp: decrypt_def split: sum.splits)

lemma decrypt_tampered_tag:
  assumes "truthy (ENCRYPTION_SECRET env)" and "iv \<noteq> []"
    and "j < length (toHex tag)" and "unhex x = Some v" and "unhex x \<noteq> unhex (toHex tag ! j)"
    and "tag = getAuthTag lib (deriveKey lib (the (ENCRYPTION_SECRET env)) salt) iv ct"
  shows "decrypt lib env (toHex salt @ colon # toHex iv @ colon # (toHex tag)[j := x] @
           colon # toHex ct) = Inl (Error ''Failed to decrypt data'')"
proof -
  let ?t = "fromHex ((toHex tag)[j := x])"
  from fromHex_toHex_update [OF assms(3,4,5)] obtain b' where
    b': "b' \<noteq> tag ! (j div 2)" "?t = tag[j div 2 := b']" by blast
  have len: "length tag = 16" using assms(6) by (simp add: length_getAuthTag)
  have "j div 2 < length tag" using assms(3) by (simp add: length_toHex)
  with b' have t: "length ?t = length tag" "?t \<noteq> tag" by (simp_all add: list_update_neq)
  have nocolon: "colon \<notin> set ((toHex tag)[j := x])"
    using assms(4) by (simp add: colon_notin_update)
  have split: "js_split colon (toHex salt @ colon # toHex iv @ colon #
      (toHex tag)[j := x] @ colon # toHex ct) = [toHex salt, toHex iv, (toHex tag)[j := x], toHex ct]"
    using nocolon by (simp add: js_split_four colon_notin_toHex)
  have neq: "getAuthTag lib (deriveKey lib (the (ENCRYPTION_SECRET env)) salt) iv ct \<noteq> ?t"
    using t(2) assms(6) by simp
  show ?thesis
    using assms(1,2) t(1) len neq
    by (simp add: decrypt_def decrypt_try_def split Let_def fromHex_toHex createCipheriv_def
        length_deriveKey setAuthTag_def decipher_def length_toHex length_getAuthTag)
qed

lemma decrypt_tampered_ct:
  assumes "truthy (ENCRYPTION_SECRET env)" and "iv \<noteq> []"
    and "j < length (toHex ct)" and "unhex x = Some v" and "unhex x \<noteq> unhex (toHex ct ! j)"
    and "tag = getAuthTag lib (deriveKey lib (the (ENCRYPTION_SECRET env)) salt) iv ct"
    and "tag_detects_byte_change lib (deriveKey lib (the (ENCRYPTION_SECRET env)) salt) iv"
  shows "decrypt lib env (toHex salt @ colon # toHex iv @ colon # toHex tag @
           colon # (toHex ct)[j := x]) = Inl (Error ''Failed to decrypt data'')"
proof -
  let ?key = "deriveKey lib (the (ENCRYPTION_SECRET env)) salt"
  let ?c = "fromHex ((toHex ct)[j := x])"
  from fromHex_toHex_update [OF assms(3,4,5)] obtain b' where
    b': "b' \<noteq> ct ! (j div 2)" "?c = ct[j div 2 := b']" by blast
  have "j div 2 < length ct" using assms(3) by (simp add: length_toHex)
  with b' assms(7) have "getAuthTag lib ?key iv ?c \<noteq> getAuthTag lib ?key iv ct"
    by (simp add: tag_detects_byte_change_def)
  then have changed: "getAuthTag lib ?key iv ?c \<noteq> tag" using assms(6) by simp
  have len: "length tag = 16" using assms(6) by (simp add: length_getAuthTag)
  have nocolon: "colon \<notin> set ((toHex ct)[j := x])"
    using assms(4) by (simp add: colon_notin_update)
  have split: "js_split colon (toHex salt @ colon # toHex iv @ colon #
      toHex tag @ colon # (toHex ct)[j := x]) = [toHex salt, toHex iv, toHex tag, (toHex ct)[j := x]]"
    using nocolon by (simp add: js_split_four colon_notin_toHex)
  show ?thesis
    using assms(1,2) changed len
    by (simp add: decrypt_def decrypt_try_def split Let_def fromHex_toHex createCipheriv_def
        length_deriveKey setAuthTag_def decipher_def length_toHex length_getAuthTag)
qed

lemma decrypt_same_bytes:
  assumes "truthy (ENCRYPTION_SECRET env)" and "iv \<noteq> []"
    and "colon \<notin> set t" and "colon \<notin> set e"
    and "fromHex t = getAuthTag lib (deriveKey lib (the (ENCRYPTION_SECRET env)) salt) iv
           (gcm_xor lib (deriveKey lib (the (ENCRYPTION_SECRET env)) salt) iv (utf8_bytes text))"
    and "fromHex e = gcm_xor lib (deriveKey lib (the (ENCRYPTION_SECRET env)) salt) iv (utf8_bytes text)"
    and "even (length e)"
  shows "decrypt lib env (toHex salt @ colon # toHex iv @ colon # t @ colon # e)
           = Inr (utf8_string (utf8_bytes text))"
proof -
  have split: "js_split colon (toHex salt @ colon # toHex iv @ colon # t @ colon # e)
      = [toHex salt, toHex iv, t, e]"
    using assms(3,4) by (simp add: js_split_four colon_notin_toHex)
  show ?thesis
    using assms(1,2,5,6,7)
    by (simp add: decrypt_def decrypt_try_def split Let_def fromHex_toHex createCipheriv_def
        length_deriveKey setAuthTag_def decipher_def length_getAuthTag gcm_xor_involution)
qed

lemma length_js_split: "length (js_split d x) = Suc (length (filter (\<lambda>c. c = d) x))"
  by (induction x) (auto split: list.splits)

lemma decrypt_wrong_segment_count:
  assumes "length (js_split colon x) \<noteq> 4"
  shows "decrypt lib env x = Inl (Error ''Failed to decrypt data'')"
  using assms by (simp add: decrypt_def decrypt_try_def Let_def)

lemma decrypt_odd_ciphertext:
  assumes "js_split colon x = [a, b, t, e]" and "odd (length e)"
  shows "decrypt lib env x = Inl (Error ''Failed to decrypt data'')"
  using assms
  by (simp add: decrypt_def decrypt_try_def Let_def decipher_def split: option.splits)

text \<open>The tag of the concrete instance has the property, under every key and nonce.\<close>

lemma foldr_xor_update:
  "i < length c \<Longrightarrow> foldr (XOR) (c[i := b]) (0::byte) = foldr (XOR) c 0 XOR (c ! i) XOR b"
proof (induction c arbitrary: i)
  case Nil
  then show ?case by simp
next
  case (Cons a c)
  show ?case
  proof (cases i)
    case 0
    then show ?thesis by (simp add: ac_simps)
  next
    case (Suc k)
    with Cons show ?thesis by (simp add: ac_simps)
  qed
qed

lemma byte_xor_fixed_D: "(F::byte) XOR x XOR b = F \<Longrightarrow> b = x"
  by (auto simp: bit_eq_iff bit_xor_iff)

lemma foldr_xor_update_neq:
  assumes "i < length c" "b \<noteq> c ! i"
  shows "foldr (XOR) (c[i := b]) (0::byte) \<noteq> foldr (XOR) c 0"
  using assms byte_xor_fixed_D [of "foldr (XOR) c 0" "c ! i" b]
  by (auto simp: foldr_xor_update)

lemma sample_tag_detects: "tag_detects_byte_change sample_crypto key iv"
  unfolding tag_detects_byte_change_def
proof (intro allI impI)
  fix ct :: "byte list" and i b
  assume a: "i < length ct \<and> b \<noteq> ct ! i"
  have first: "getAuthTag sample_crypto key iv c ! 0 = foldr (XOR) c 0" for c
    by (simp add: getAuthTag_def sample_crypto_def upt_rec)
  have "foldr (XOR) (ct[i := b]) (0::byte) \<noteq> foldr (XOR) ct 0"
    using a by (simp add: foldr_xor_update_neq)
  then have "getAuthTag sample_crypto key iv (ct[i := b]) ! 0 \<noteq> getAuthTag sample_crypto key iv ct ! 0"
    by (simp only: first simp_thms)
  then show "getAuthTag sample_crypto key iv (ct[i := b]) \<noteq> getAuthTag sample_crypto key iv ct"
    by auto
qed

text \<open>
  C2, as the code has it.  Take a value \<open>c\<close> returned by \<^verbatim>\<open>encrypt\<close> for \<open>s\<close>, with
  its four segments, and replace one character of the tag segment or of the ciphertext
  segment by a hex digit \<open>x\<close>.  When \<open>x\<close> has another value than the character it
  replaces, \<^verbatim>\<open>decrypt\<close> fails: for the tag segment always, for the ciphertext segment
  when the tag of the primitive, under the key and nonce of \<open>c\<close>, tells a ciphertext from
  the same ciphertext with one byte replaced, as the tag of GCM does.  When \<open>x\<close> has the
  value of the character it replaces, \<^verbatim>\<open>a\<close> for \<^verbatim>\<open>A\<close>, \<^verbatim>\<open>decrypt\<close> returns what it
  returns for \<open>c\<close>, the plaintext \<open>s\<close> as UTF-8 carries it.  So \<^verbatim>\<open>decrypt\<close> returns no
  other plaintext.  The error is the one \<^verbatim>\<open>decrypt\<close> throws for every failure,
  \<^verbatim>\<open>Failed to decrypt data\<close>; the message of the failed tag check goes to the console
  only.
\<close>

theorem decrypt_detects_tampering:
  assumes enc: "encrypt lib env r s = (Inr c, r')"
    and parts: "js_split colon c = [hs, hi, ht, hc]"
    and x: "unhex x \<noteq> None"
  shows "(j < length ht \<and> unhex x \<noteq> unhex (ht ! j) \<longrightarrow>
            decrypt lib env (hs @ [colon] @ hi @ [colon] @ ht[j := x] @ [colon] @ hc)
              = Inl (Error ''Failed to decrypt data'')) \<and>
         (j < length hc \<and> unhex x \<noteq> unhex (hc ! j) \<and>
          tag_detects_byte_change lib
            (deriveKey lib (the (ENCRYPTION_SECRET env)) (fromHex hs)) (fromHex hi) \<longrightarrow>
            decrypt lib env (hs @ [colon] @ hi @ [colon] @ ht @ [colon] @ hc[j := x])
              = Inl (Error ''Failed to decrypt data'')) \<and>
         (j < length ht \<and> unhex x = unhex (ht ! j) \<longrightarrow>
            decrypt lib env (hs @ [colon] @ hi @ [colon] @ ht[j := x] @ [colon] @ hc)
              = Inr (utf8_string (utf8_bytes s))) \<and>
         (j < length hc \<and> unhex x = unhex (hc ! j) \<longrightarrow>
            decrypt lib env (hs @ [colon] @ hi @ [colon] @ ht @ [colon] @ hc[j := x])
              = Inr (utf8_string (utf8_bytes s))) \<and>
         decrypt lib env c = Inr (utf8_string (utf8_bytes s)) \<and>
         (\<forall>y e. decrypt lib env y = Inl e \<longrightarrow> e = Error ''Failed to decrypt data'')"
proof -
  let ?secret = "the (ENCRYPTION_SECRET env)"
  let ?salt = "drawn_salt r" and ?iv = "drawn_iv r"
  let ?key = "deriveKey lib ?secret ?salt"
  let ?ct = "gcm_xor lib ?key ?iv (utf8_bytes s)"
  let ?tag = "getAuthTag lib ?key ?iv ?ct"
  from enc have ok: "truthy (ENCRYPTION_SECRET env)" using encrypt_Inr_D by blast
  from enc have c: "c = ciphertext_of lib ?secret ?salt ?iv s" by (rule encrypt_Inr_eq)
  have iv: "?iv \<noteq> []" using length_drawn_iv [of r] by auto
  from parts c have segs: "hs = toHex ?salt" "hi = toHex ?iv" "ht = toHex ?tag" "hc = toHex ?ct"
    by (simp_all add: js_split_ciphertext_of)
  from x obtain v where v: "unhex x = Some v" by auto
  have tag_case: "decrypt lib env (hs @ [colon] @ hi @ [colon] @ ht[j := x] @ [colon] @ hc)
      = Inl (Error ''Failed to decrypt data'')"
    if "j < length ht" "unhex x \<noteq> unhex (ht ! j)"
    using decrypt_tampered_tag [OF ok iv _ v, of j ?tag lib ?salt ?ct] that segs by simp
  have ct_case: "decrypt lib env (hs @ [colon] @ hi @ [colon] @ ht @ [colon] @ hc[j := x])
      = Inl (Error ''Failed to decrypt data'')"
    if "j < length hc" "unhex x \<noteq> unhex (hc ! j)"
      "tag_detects_byte_change lib (deriveKey lib ?secret (fromHex hs)) (fromHex hi)"
    using decrypt_tampered_ct [OF ok iv _ v, of j ?ct ?tag lib ?salt] that segs
    by (simp add: fromHex_toHex)
  have tag_same: "decrypt lib env (hs @ [colon] @ hi @ [colon] @ ht[j := x] @ [colon] @ hc)
      = Inr (utf8_string (utf8_bytes s))"
    if "j < length ht" "unhex x = unhex (ht ! j)"
  proof -
    have "fromHex (ht[j := x]) = ?tag"
      using that segs(3) by (simp add: fromHex_toHex_update_same)
    moreover have "colon \<notin> set (ht[j := x])" using x segs(3) by (simp add: colon_notin_update)
    ultimately show ?thesis
      using decrypt_same_bytes [OF ok iv, of "ht[j := x]" hc lib ?salt s] segs
      by (simp add: colon_notin_toHex fromHex_toHex length_toHex)
  qed
  have ct_same: "decrypt lib env (hs @ [colon] @ hi @ [colon] @ ht @ [colon] @ hc[j := x])
      = Inr (utf8_string (utf8_bytes s))"
    if "j < length hc" "unhex x = unhex (hc ! j)"
  proof -
    have "fromHex (hc[j := x]) = ?ct"
      using that segs(4) by (simp add: fromHex_toHex_update_same)
    moreover have "colon \<notin> set (hc[j := x])" using x segs(4) by (simp add: colon_notin_update)
    ultimately show ?thesis
      using decrypt_same_bytes [OF ok iv, of ht "hc[j := x]" lib ?salt s] segs
      by (simp add: colon_notin_toHex fromHex_toHex length_toHex)
  qed
  have orig: "decrypt lib env c = Inr (utf8_string (utf8_bytes s))"
    using ok iv c by (simp add: decrypt_ciphertext_of)
  have generic: "\<forall>y e. decrypt lib env y = Inl e \<longrightarrow> e = Error ''Failed to decrypt data''"
    using decrypt_error_generic by blast
  from tag_case ct_case tag_same ct_same orig generic show ?thesis by blast
qed

lemma sample_parts:
  "js_split colon sample_ciphertext =
     [js ''000306090c0f1215181b1e2124272a2d303336393c3f4245484b4e5154575a5d606366696c6f7275787b7e8184878a8d909396999c9fa2a5a8abaeb1b4b7babd'',
      js ''c0c3c6c9cccfd2d5d8dbdee1e4e7eaed'',
      js ''441112131415161718191a1b1c1d1e1f'',
      js ''5b544b'']"
  by code_simp

lemma sample_tamper_facts:
  "unhex 0x35 \<noteq> None"
  "unhex 0x36 \<noteq> None"
  "0 < length (js ''441112131415161718191a1b1c1d1e1f'')"
  "unhex 0x35 \<noteq> unhex (js ''441112131415161718191a1b1c1d1e1f'' ! 0)"
  "0 < length (js ''5b544b'')"
  "unhex 0x36 \<noteq> unhex (js ''5b544b'' ! 0)"
  "unhex 0x41 \<noteq> None"
  "21 < length (js ''441112131415161718191a1b1c1d1e1f'')"
  "unhex 0x41 = unhex (js ''441112131415161718191a1b1c1d1e1f'' ! 21)"
  "utf8_string (utf8_bytes (js ''key'')) = js ''key''"
  by code_simp+

lemma sample_tampered_strings:
  "js ''000306090c0f1215181b1e2124272a2d303336393c3f4245484b4e5154575a5d606366696c6f7275787b7e8184878a8d909396999c9fa2a5a8abaeb1b4b7babd'' @ [colon] @
   js ''c0c3c6c9cccfd2d5d8dbdee1e4e7eaed'' @ [colon] @
   (js ''441112131415161718191a1b1c1d1e1f'')[0 := 0x35] @ [colon] @ js ''5b544b'' = tampered_tag"
  "js ''000306090c0f1215181b1e2124272a2d303336393c3f4245484b4e5154575a5d606366696c6f7275787b7e8184878a8d909396999c9fa2a5a8abaeb1b4b7babd'' @ [colon] @
   js ''c0c3c6c9cccfd2d5d8dbdee1e4e7eaed'' @ [colon] @
   js ''441112131415161718191a1b1c1d1e1f'' @ [colon] @ (js ''5b544b'')[0 := 0x36]
     = tampered_ciphertext"
  "js ''000306090c0f1215181b1e2124272a2d303336393c3f4245484b4e5154575a5d606366696c6f7275787b7e8184878a8d909396999c9fa2a5a8abaeb1b4b7babd'' @ [colon] @
   js ''c0c3c6c9cccfd2d5d8dbdee1e4e7eaed'' @ [colon] @
   (js ''441112131415161718191a1b1c1d1e1f'')[21 := 0x41] @ [colon] @ js ''5b544b'' = recased_tag"
  by code_simp+

theorem decrypt_detects_tampering_witness:
  "decrypt sample_crypto sample_env tampered_tag = Inl (Error ''Failed to decrypt data'') \<and>
   decrypt sample_crypto sample_env tampered_ciphertext = Inl (Error ''Failed to decrypt data'') \<and>
   decrypt sample_crypto sample_env recased_tag = Inr (js ''key'')"
proof -
  have a: "decrypt sample_crypto sample_env tampered_tag = Inl (Error ''Failed to decrypt data'')"
    using decrypt_detects_tampering [OF encrypt_sample sample_parts sample_tamper_facts(1), of 0]
      sample_tamper_facts(3,4)
    by (simp only: sample_tampered_strings simp_thms)
  have b: "decrypt sample_crypto sample_env tampered_ciphertext = Inl (Error ''Failed to decrypt data'')"
    using decrypt_detects_tampering [OF encrypt_sample sample_parts sample_tamper_facts(2), of 0]
      sample_tamper_facts(5,6) sample_tag_detects
    by (simp only: sample_tampered_strings simp_thms)
  have c: "decrypt sample_crypto sample_env recased_tag = Inr (js ''key'')"
    using decrypt_detects_tampering [OF encrypt_sample sample_parts sample_tamper_facts(7), of 21]
      sample_tamper_facts(8,9)
    by (simp only: sample_tampered_strings sample_tamper_facts(10) simp_thms)
  from a b c show ?thesis by blast
qed

text \<open>
  C2 as stated fails on the code in what it says about the error: the error thrown for a
  changed tag is the error thrown for a string that is no ciphertext at all, so nothing
  marks it as a failed tag check.  And not every change of a character makes \<^verbatim>\<open>decrypt\<close>
  fail: with \<^verbatim>\<open>a\<close> of the tag segment written as \<^verbatim>\<open>A\<close>, the original plaintext is
  returned.
\<close>

theorem tamper_error_counterexample:
  "decrypt sample_crypto sample_env tampered_tag
     = decrypt sample_crypto sample_env (js ''not-a-ciphertext'') \<and>
   decrypt sample_crypto sample_env tampered_tag = Inl (Error ''Failed to decrypt data'') \<and>
   decrypt sample_crypto sample_env recased_tag = Inr (js ''key'')"
  by code_simp

text \<open>
  C3, as the code has it.  Every string that does not split at the colons into exactly
  four parts, which is every string whose number of colons is not three and so every
  string with fewer than four segments, makes \<^verbatim>\<open>decrypt\<close> fail.  The error is the one
  \<^verbatim>\<open>decrypt\<close> throws for every failure, \<^verbatim>\<open>Failed to decrypt data\<close>, the same as for a
  failed tag check.  The segments are not checked for being hex; of a string of four
  segments, the one whose ciphertext segment has an odd number of characters fails.
\<close>

theorem decrypt_rejects_wrong_segment_count:
  shows "(length (js_split colon x) \<noteq> 4 \<longrightarrow>
            decrypt lib env x = Inl (Error ''Failed to decrypt data'')) \<and>
         (length (filter (\<lambda>c. c = colon) x) < 3 \<longrightarrow>
            decrypt lib env x = Inl (Error ''Failed to decrypt data'')) \<and>
         length (js_split colon x) = Suc (length (filter (\<lambda>c. c = colon) x)) \<and>
         (js_split colon x = [a, b, t, ct] \<and> odd (length ct) \<longrightarrow>
            decrypt lib env x = Inl (Error ''Failed to decrypt data'')) \<and>
         (\<forall>y e. decrypt lib env y = Inl e \<longrightarrow> e = Error ''Failed to decrypt data'')"
proof -
  have n: "length (js_split colon x) = Suc (length (filter (\<lambda>c. c = colon) x))"
    by (rule length_js_split)
  have a: "decrypt lib env x = Inl (Error ''Failed to decrypt data'')"
    if "length (js_split colon x) \<noteq> 4"
    using that by (rule decrypt_wrong_segment_count)
  have b: "decrypt lib env x = Inl (Error ''Failed to decrypt data'')"
    if "length (filter (\<lambda>c. c = colon) x) < 3"
    using that n by (intro decrypt_wrong_segment_count) simp
  have generic: "\<forall>y e. decrypt lib env y = Inl e \<longrightarrow> e = Error ''Failed to decrypt data''"
    using decrypt_error_generic by blast
  have odd: "decrypt lib env x = Inl (Error ''Failed to decrypt data'')"
    if "js_split colon x = [a, b, t, ct]" "odd (length ct)"
    using that by (rule decrypt_odd_ciphertext)
  from a b n odd generic show ?thesis by blast
qed

theorem decrypt_rejects_wrong_segment_count_witness:
  "decrypt sample_crypto sample_env (js ''0003:c0c3:4411'') = Inl (Error ''Failed to decrypt data'') \<and>
   length (js_split colon (js ''0003:c0c3:4411'')) = 3 \<and>
   decrypt sample_crypto sample_env (js ''0003:c0c3:4411:5b5'') = Inl (Error ''Failed to decrypt data'')"
proof -
  have three: "length (js_split colon (js ''0003:c0c3:4411'')) = 3" by code_simp
  have four: "js_split colon (js ''0003:c0c3:4411:5b5'') = [js ''0003'', js ''c0c3'', js ''4411'', js ''5b5'']"
    by code_simp
  have odd: "odd (length (js ''5b5''))" by (simp add: js_def)
  have "decrypt sample_crypto sample_env (js ''0003:c0c3:4411'') = Inl (Error ''Failed to decrypt data'')"
    using three
      decrypt_rejects_wrong_segment_count [of "js ''0003:c0c3:4411''" sample_crypto sample_env]
    by simp
  moreover
  have "decrypt sample_crypto sample_env (js ''0003:c0c3:4411:5b5'') = Inl (Error ''Failed to decrypt data'')"
    using four odd
      decrypt_rejects_wrong_segment_count [of "js ''0003:c0c3:4411:5b5''" sample_crypto sample_env
        "js ''0003''" "js ''c0c3''" "js ''4411''" "js ''5b5''"]
    by blast
  ultimately show ?thesis using three by blast
qed

text \<open>
  C3 as stated fails on the code in two ways.  A string of four segments whose salt
  segment ends in \<^verbatim>\<open>zz\<close>, which is not hex, is decrypted without any error: the decoder
  drops what follows the last pair of hex digits.  And the error for a string with too
  few segments is the error for a failed tag check.
\<close>

theorem malformed_input_counterexample:
  "decrypt sample_crypto sample_env junk_in_salt = Inr (js ''key'') \<and>
   decrypt sample_crypto sample_env (js ''0003:c0c3:4411'')
     = decrypt sample_crypto sample_env tampered_tag"
  by code_simp


section \<open>The stored secret, resolved for use\<close>

lemma decryptedKey_current:
  "truthy (aiApiKey u) \<Longrightarrow> decryptedKey lib env u = decrypt lib env (the (aiApiKey u))"
  by (simp add: decryptedKey_def)

lemma decryptedKey_legacy:
  "\<not> truthy (aiApiKey u) \<Longrightarrow> truthy (geminiApiKey u) \<Longrightarrow>
     decryptedKey lib env u = decrypt lib env (the (geminiApiKey u))"
  by (simp add: decryptedKey_def)

lemma userApiKey_decryptedKey:
  "truthy (aiApiKey u) \<or> truthy (geminiApiKey u) \<Longrightarrow>
     userApiKey lib env u = map_sum id Some (decryptedKey lib env u)"
  by (auto simp: userApiKey_def decryptedKey_def split: sum.splits)

lemma validateStoredAIConfig_none:
  assumes "db uid = Some u" "\<not> truthy (aiApiKey u)" "\<not> truthy (geminiApiKey u)"
  shows "validateStoredAIConfig lib env api uid db =
     \<lparr>status = 404, body = JObj [(''success'', JBool False),
        (''message'', JStr ''No API key configured'')]\<rparr>"
  using assms by (simp add: validateStoredAIConfig_def)

lemma generateRecipes_config_none:
  assumes "\<not> truthy (aiApiKey u)" "\<not> truthy (geminiApiKey u)"
  shows "generateRecipes_config lib env u =
     (let provider = (if truthy (aiProvider u) then the (aiProvider u) else ''gemini'');
          model = (if truthy (aiModel u) then the (aiModel u) else ''gemini-2.5-flash-lite'');
          serverKey = (if provider = ''gemini'' then GEMINI_API_KEY env else GROK_API_KEY env)
      in if truthy serverKey then Inr (the serverKey, provider, model)
         else Inl (Error (''Failed to generate recipe: No '' @ provider @
                '' API key available. Please provide your API key in profile settings.'')))"
  using assms
  by (simp add: generateRecipes_config_def userApiKey_def aiHelper_getAIConfig_def Let_def truthy_def)

text \<open>
  C8, as the code has it.  Where the stored secret is decrypted for use, in
  \<^verbatim>\<open>validateStoredAIConfig\<close> and before the AI calls of \<^verbatim>\<open>generateRecipes\<close>, the
  current secret is decrypted when it is present, otherwise the legacy secret when that is
  present, and what \<^verbatim>\<open>decrypt\<close> returns or throws is the result; a user who holds only
  a legacy secret that \<^verbatim>\<open>encrypt\<close> produced from \<open>s\<close> gets \<open>s\<close> as UTF-8 carries it,
  which is \<open>s\<close> itself when \<open>s\<close> is well formed.  When neither is
  present, \<^verbatim>\<open>validateStoredAIConfig\<close> answers 404, \<^verbatim>\<open>No API key configured\<close>, while
  \<^verbatim>\<open>generateRecipes\<close> goes on with no key of the user: the AI call is made with the
  server's own key for the provider when the environment has one, and fails, for want of
  a key, only when it has none.
\<close>

theorem stored_secret_resolution:
  shows "(truthy (aiApiKey u) \<longrightarrow>
            decryptedKey lib env u = decrypt lib env (the (aiApiKey u)) \<and>
            userApiKey lib env u = map_sum id Some (decrypt lib env (the (aiApiKey u)))) \<and>
         (\<not> truthy (aiApiKey u) \<and> truthy (geminiApiKey u) \<longrightarrow>
            decryptedKey lib env u = decrypt lib env (the (geminiApiKey u)) \<and>
            userApiKey lib env u = map_sum id Some (decrypt lib env (the (geminiApiKey u)))) \<and>
         (\<not> truthy (aiApiKey u) \<and> encrypt lib env r s = (Inr c, r') \<and> geminiApiKey u = Some c \<longrightarrow>
            decryptedKey lib env u = Inr (utf8_string (utf8_bytes s)) \<and>
            userApiKey lib env u = Inr (Some (utf8_string (utf8_bytes s))) \<and>
            (well_formed s \<longrightarrow>
               decryptedKey lib env u = Inr s \<and> userApiKey lib env u = Inr (Some s))) \<and>
         (\<not> truthy (aiApiKey u) \<and> \<not> truthy (geminiApiKey u) \<longrightarrow>
            (db uid = Some u \<longrightarrow>
               validateStoredAIConfig lib env api uid db =
                 \<lparr>status = 404, body = JObj [(''success'', JBool False),
                    (''message'', JStr ''No API key configured'')]\<rparr>) \<and>
            userApiKey lib env u = Inr None \<and>
            generateRecipes_config lib env u =
              (let provider = (if truthy (aiProvider u) then the (aiProvider u) else ''gemini'');
                   model = (if truthy (aiModel u) then the (aiModel u)
                            else ''gemini-2.5-flash-lite'');
                   serverKey = (if provider = ''gemini'' then GEMINI_API_KEY env
                                else GROK_API_KEY env)
               in if truthy serverKey then Inr (the serverKey, provider, model)
                  else Inl (Error (''Failed to generate recipe: No '' @ provider @
                         '' API key available. Please provide your API key in profile settings.''))))"
proof -
  have legacy: "decryptedKey lib env u = Inr (utf8_string (utf8_bytes s)) \<and>
      userApiKey lib env u = Inr (Some (utf8_string (utf8_bytes s)))"
    if a: "\<not> truthy (aiApiKey u) \<and> encrypt lib env r s = (Inr c, r') \<and> geminiApiKey u = Some c"
  proof -
    from a have enc: "encrypt lib env r s = (Inr c, r')" by simp
    from enc have ok: "truthy (ENCRYPTION_SECRET env)" using encrypt_Inr_D by blast
    from enc have c: "c = ciphertext_of lib (the (ENCRYPTION_SECRET env)) (drawn_salt r) (drawn_iv r) s"
      by (rule encrypt_Inr_eq)
    have iv: "drawn_iv r \<noteq> []" using length_drawn_iv [of r] by auto
    have dec: "decrypt lib env c = Inr (utf8_string (utf8_bytes s))"
      using ok iv c by (simp add: decrypt_ciphertext_of)
    have "c \<noteq> []" using c by (simp add: ciphertext_of_def Let_def)
    with a have leg: "truthy (geminiApiKey u)" by (simp add: truthy_def)
    with a dec have d: "decryptedKey lib env u = Inr (utf8_string (utf8_bytes s))"
      by (simp add: decryptedKey_legacy)
    with leg have "userApiKey lib env u = Inr (Some (utf8_string (utf8_bytes s)))"
      by (simp add: userApiKey_decryptedKey)
    with d show ?thesis by simp
  qed
  show ?thesis
  proof (intro conjI impI)
  assume "truthy (aiApiKey u)"
  then show "decryptedKey lib env u = decrypt lib env (the (aiApiKey u))"
    and "userApiKey lib env u = map_sum id Some (decrypt lib env (the (aiApiKey u)))"
    by (simp_all add: userApiKey_decryptedKey decryptedKey_current)
next
  assume "\<not> truthy (aiApiKey u) \<and> truthy (geminiApiKey u)"
  then show "decryptedKey lib env u = decrypt lib env (the (geminiApiKey u))"
    and "userApiKey lib env u = map_sum id Some (decrypt lib env (the (geminiApiKey u)))"
    by (simp_all add: userApiKey_decryptedKey decryptedKey_legacy)
next
  assume a: "\<not> truthy (aiApiKey u) \<and> encrypt lib env r s = (Inr c, r') \<and> geminiApiKey u = Some c"
  from legacy [OF a] show "decryptedKey lib env u = Inr (utf8_string (utf8_bytes s))"
    and "userApiKey lib env u = Inr (Some (utf8_string (utf8_bytes s)))" by simp_all
next
  assume a: "\<not> truthy (aiApiKey u) \<and> encrypt lib env r s = (Inr c, r') \<and> geminiApiKey u = Some c"
    and wf: "well_formed s"
  from legacy [OF a] wf show "decryptedKey lib env u = Inr s"
    and "userApiKey lib env u = Inr (Some s)" by (simp_all add: utf8_string_bytes)
next
  assume "\<not> truthy (aiApiKey u) \<and> \<not> truthy (geminiApiKey u)" and "db uid = Some u"
  then show "validateStoredAIConfig lib env api uid db =
                 \<lparr>status = 404, body = JObj [(''success'', JBool False),
                    (''message'', JStr ''No API key configured'')]\<rparr>"
    by (simp add: validateStoredAIConfig_none)
next
  assume "\<not> truthy (aiApiKey u) \<and> \<not> truthy (geminiApiKey u)"
  then show "userApiKey lib env u = Inr None" by (simp add: userApiKey_def)
next
  assume "\<not> truthy (aiApiKey u) \<and> \<not> truthy (geminiApiKey u)"
  then show "generateRecipes_config lib env u =
              (let provider = (if truthy (aiProvider u) then the (aiProvider u) else ''gemini'');
                   model = (if truthy (aiModel u) then the (aiModel u)
                            else ''gemini-2.5-flash-lite'');
                   serverKey = (if provider = ''gemini'' then GEMINI_API_KEY env
                                else GROK_API_KEY env)
               in if truthy serverKey then Inr (the serverKey, provider, model)
                  else Inl (Error (''Failed to generate recipe: No '' @ provider @
                         '' API key available. Please provide your API key in profile settings.'')))"
    by (simp add: generateRecipes_config_none)
qed
qed

lemma short_key_well_formed: "well_formed (js ''key'')"
  by code_simp

theorem stored_secret_resolution_witness:
  "decryptedKey sample_crypto sample_env legacy_user = Inr (js ''key'') \<and>
   userApiKey sample_crypto sample_env legacy_user = Inr (Some (js ''key'')) \<and>
   validateStoredAIConfig sample_crypto sample_env sample_services ''u1'' sample_users =
     \<lparr>status = 404, body = JObj [(''success'', JBool False),
        (''message'', JStr ''No API key configured'')]\<rparr> \<and>
   userApiKey sample_crypto sample_env new_user = Inr None \<and>
   generateRecipes_config sample_crypto sample_env new_user =
     Inl (Error ''Failed to generate recipe: No gemini API key available. Please provide your API key in profile settings.'')"
proof -
  have leg: "\<not> truthy (aiApiKey legacy_user)" "geminiApiKey legacy_user = Some sample_ciphertext"
    by (simp_all add: legacy_user_def truthy_def)
  have new: "\<not> truthy (aiApiKey new_user) \<and> \<not> truthy (geminiApiKey new_user)"
    "truthy (aiProvider new_user)" "the (aiProvider new_user) = ''gemini''"
    "truthy (aiModel new_user)" "\<not> truthy (GEMINI_API_KEY sample_env)"
    by (simp_all add: new_user_def truthy_def sample_env_def)
  from stored_secret_resolution [of legacy_user sample_crypto sample_env sample_rng "js ''key''"
      sample_ciphertext "rng_after sample_rng"] leg encrypt_sample short_key_well_formed
  have a: "decryptedKey sample_crypto sample_env legacy_user = Inr (js ''key'')"
    "userApiKey sample_crypto sample_env legacy_user = Inr (Some (js ''key''))"
    by blast+
  from stored_secret_resolution [of new_user sample_crypto sample_env _ _ _ _ sample_users "''u1''"
      sample_services] new sample_users_u1
  have b: "validateStoredAIConfig sample_crypto sample_env sample_services ''u1'' sample_users =
     \<lparr>status = 404, body = JObj [(''success'', JBool False),
        (''message'', JStr ''No API key configured'')]\<rparr>"
    "userApiKey sample_crypto sample_env new_user = Inr None"
    "generateRecipes_config sample_crypto sample_env new_user =
     Inl (Error ''Failed to generate recipe: No gemini API key available. Please provide your API key in profile settings.'')"
    by (simp_all add: Let_def)
  from a b show ?thesis by blast
qed

text \<open>
  C8 as stated fails on the code where neither secret is present: with a key for
  \<^verbatim>\<open>gemini\<close> in the server's environment, \<^verbatim>\<open>generateRecipes\<close> does not fail for a
  user without any credential but calls the provider with the server's key.
\<close>

theorem not_configured_counterexample:
  "\<not> truthy (aiApiKey new_user) \<and> \<not> truthy (geminiApiKey new_user) \<and>
   userApiKey sample_crypto (sample_env\<lparr>GEMINI_API_KEY := Some (js ''server-key'')\<rparr>) new_user = Inr None \<and>
   generateRecipes_config sample_crypto (sample_env\<lparr>GEMINI_API_KEY := Some (js ''server-key'')\<rparr>) new_user
     = Inr (js ''server-key'', ''gemini'', ''gemini-2.5-flash-lite'')"
  by code_simp


end
